theory Spec2Isabelle
  imports Main "HOL-Library.Sublist"
begin

section \<open>Strings of the host language\<close>

text \<open>
  Strings are lists of characters. The embedding is exact for ASCII text: the character
  classes below are the ASCII ranges that the regular expressions of
  \<^verbatim>\<open>generateTokens.mjs\<close> name (\<^verbatim>\<open>[a-z]\<close>, \<^verbatim>\<open>[A-Z]\<close>, \<^verbatim>\<open>[0-9]\<close>), white space is the
  ASCII part of \<^verbatim>\<open>\s\<close>, and a character above 127 has no case and is not white space.
\<close>

definition isUpper :: "char \<Rightarrow> bool" where
  "isUpper c = (65 \<le> (of_char c :: nat) \<and> (of_char c :: nat) \<le> 90)"

definition isLower :: "char \<Rightarrow> bool" where
  "isLower c = (97 \<le> (of_char c :: nat) \<and> (of_char c :: nat) \<le> 122)"

definition isDigit :: "char \<Rightarrow> bool" where
  "isDigit c = (48 \<le> (of_char c :: nat) \<and> (of_char c :: nat) \<le> 57)"

definition isSpace :: "char \<Rightarrow> bool" where
  "isSpace c = ((of_char c :: nat) \<in> {9, 10, 11, 12, 13, 32})"

definition toLowerChar :: "char \<Rightarrow> char" where
  "toLowerChar c = (if isUpper c then char_of ((of_char c :: nat) + 32) else c)"

definition toUpperChar :: "char \<Rightarrow> char" where
  "toUpperChar c = (if isLower c then char_of ((of_char c :: nat) - 32) else c)"

definition toLowerCase :: "string \<Rightarrow> string" where
  "toLowerCase s = map toLowerChar s"

text \<open>\<^verbatim>\<open>s.startsWith(p)\<close> and \<^verbatim>\<open>s.includes(p)\<close>.\<close>

fun startsWith :: "string \<Rightarrow> string \<Rightarrow> bool" where
  "startsWith s [] = True"
| "startsWith [] (p # ps) = False"
| "startsWith (c # cs) (p # ps) = (c = p \<and> startsWith cs ps)"

fun includesStr :: "string \<Rightarrow> string \<Rightarrow> bool" where
  "includesStr [] p = (p = [])"
| "includesStr (c # cs) p = (startsWith (c # cs) p \<or> includesStr cs p)"

text \<open>\<^verbatim>\<open>s.trim()\<close>: white space is removed at both ends.\<close>

definition trim :: "string \<Rightarrow> string" where
  "trim s = rev (dropWhile isSpace (rev (dropWhile isSpace s)))"

text \<open>
  \<^verbatim>\<open>s.split(sep)\<close> for a separator of one character, and \<^verbatim>\<open>parts.join(sep)\<close>.
  Splitting the empty string gives one empty part, as in the host language.
\<close>

fun split :: "char \<Rightarrow> string \<Rightarrow> string list" where
  "split sep [] = [[]]"
| "split sep (c # cs) =
     (if c = sep then [] # split sep cs
      else (case split sep cs of
              [] \<Rightarrow> [[c]]
            | p # ps \<Rightarrow> (c # p) # ps))"

fun join :: "string \<Rightarrow> string list \<Rightarrow> string" where
  "join sep [] = []"
| "join sep [p] = p"
| "join sep (p # q # ps) = p @ sep @ join sep (q # ps)"

section \<open>The name normalizer\<close>

text \<open>
  \<^verbatim>\<open>normalizeTokenName\<close> is a chain of five global replacements and a lower-casing.
  Each replacement is one function here, in the order of the chain.
\<close>

text \<open>\<^verbatim>\<open>.replace(/([a-z])([A-Z])/g, "$1-$2")\<close>: matches do not overlap, the scan
  resumes after the upper-case letter.\<close>

fun replaceCamel :: "string \<Rightarrow> string" where
  "replaceCamel (a # b # cs) =
     (if isLower a \<and> isUpper b then a # CHR ''-'' # b # replaceCamel cs
      else a # replaceCamel (b # cs))"
| "replaceCamel cs = cs"

text \<open>\<^verbatim>\<open>.replace(/[A-Z]/g, (letter) => `-${letter.toLowerCase()}`)\<close>.\<close>

definition replaceUpper :: "string \<Rightarrow> string" where
  "replaceUpper s = concat (map (\<lambda>c. if isUpper c then [CHR ''-'', toLowerChar c] else [c]) s)"

text \<open>\<^verbatim>\<open>.replace(/\s+/g, "-")\<close>: a maximal run of white space becomes one hyphen.\<close>

function replaceSpaces :: "string \<Rightarrow> string" where
  "replaceSpaces [] = []"
| "replaceSpaces (c # cs) =
     (if isSpace c then CHR ''-'' # replaceSpaces (dropWhile isSpace cs)
      else c # replaceSpaces cs)"
  by pat_completeness auto
termination
  by (relation "measure length") (auto simp: length_dropWhile_le less_Suc_eq_le)

text \<open>\<^verbatim>\<open>.replace(/[^a-z0-9-]/g, "")\<close>.\<close>

definition isNameChar :: "char \<Rightarrow> bool" where
  "isNameChar c = (isLower c \<or> isDigit c \<or> c = CHR ''-'')"

definition removeInvalid :: "string \<Rightarrow> string" where
  "removeInvalid s = filter isNameChar s"

text \<open>\<^verbatim>\<open>.replace(/^-+|-+$/g, "")\<close>: the leading run of hyphens and the trailing run.\<close>

definition trimHyphens :: "string \<Rightarrow> string" where
  "trimHyphens s =
     rev (dropWhile (\<lambda>c. c = CHR ''-'') (rev (dropWhile (\<lambda>c. c = CHR ''-'') s)))"

definition normalizeTokenName :: "string \<Rightarrow> string" where
  "normalizeTokenName name =
     toLowerCase (trimHyphens (removeInvalid (replaceSpaces (replaceUpper (replaceCamel name)))))"

definition normalizeReferencePath :: "string \<Rightarrow> string" where
  "normalizeReferencePath refPath = join ''-'' (map normalizeTokenName (split CHR ''.'' refPath))"

section \<open>The reference resolver\<close>

text \<open>
  \<^verbatim>\<open>.replace(/\{([^}]+)\}/g, (match, refPath) => `var(--${normalizeReferencePath(refPath.trim())})`)\<close>,
  the replacement that \<^verbatim>\<open>processStringReferences\<close> and \<^verbatim>\<open>globalFixReferences\<close> both
  apply. At an opening brace the class \<^verbatim>\<open>[^}]+\<close> takes every character up to the next
  closing brace; the match needs at least one such character and the closing brace. Where
  there is no match the character is copied and the scan moves on by one.
\<close>

function replaceReferences :: "string \<Rightarrow> string" where
  "replaceReferences [] = []"
| "replaceReferences (c # cs) =
     (if c = CHR ''{'' \<and> takeWhile (\<lambda>x. x \<noteq> CHR ''}'') cs \<noteq> []
         \<and> dropWhile (\<lambda>x. x \<noteq> CHR ''}'') cs \<noteq> []
      then ''var(--'' @ normalizeReferencePath (trim (takeWhile (\<lambda>x. x \<noteq> CHR ''}'') cs)) @ '')''
           @ replaceReferences (tl (dropWhile (\<lambda>x. x \<noteq> CHR ''}'') cs))
      else c # replaceReferences cs)"
  by pat_completeness auto
termination
proof (relation "measure length")
  fix c :: char and cs :: string
  have "length (tl (dropWhile (\<lambda>x. x \<noteq> CHR ''}'') cs)) \<le> length cs"
    using length_dropWhile_le [of "\<lambda>x. x \<noteq> CHR ''}''" cs] by simp
  then show "(tl (dropWhile (\<lambda>x. x \<noteq> CHR ''}'') cs), c # cs) \<in> measure length"
    by simp
qed simp_all

text \<open>\<^verbatim>\<open>/\{([^}]+)\}/.test(s)\<close>: the string holds a placeholder the replacement rewrites.\<close>

fun hasPlaceholder :: "string \<Rightarrow> bool" where
  "hasPlaceholder [] = False"
| "hasPlaceholder (c # cs) =
     ((c = CHR ''{'' \<and> takeWhile (\<lambda>x. x \<noteq> CHR ''}'') cs \<noteq> []
         \<and> dropWhile (\<lambda>x. x \<noteq> CHR ''}'') cs \<noteq> [])
      \<or> hasPlaceholder cs)"

text \<open>\<^verbatim>\<open>needsCalc(str, type)\<close>; the type is not looked at.\<close>

definition hasMath :: "string \<Rightarrow> bool" where
  "hasMath str = list_ex (\<lambda>c. c \<in> set ''+-*/'') str"

definition needsCalc :: "string \<Rightarrow> 't \<Rightarrow> bool" where
  "needsCalc str type =
     (if hasMath str \<and> includesStr str ''var(--''
      then (if \<not> startsWith str ''calc('' then True else False)
      else False)"

definition processStringReferences :: "string \<Rightarrow> 't \<Rightarrow> string" where
  "processStringReferences str type =
     (let withReferences = replaceReferences str
      in if needsCalc withReferences type then ''calc('' @ withReferences @ '')''
         else withReferences)"

definition skippedLine :: "string \<Rightarrow> bool" where
  "skippedLine line =
     (startsWith (trim line) ''--'' \<or> startsWith (trim line) ''//'' \<or> trim line = [])"

definition globalFixReferences :: "string \<Rightarrow> string" where
  "globalFixReferences content =
     join [CHR 0x0A]
       (map (\<lambda>line. if skippedLine line then line else replaceReferences line)
            (split (CHR 0x0A) content))"

section \<open>Token documents\<close>

text \<open>
  A token document is the value that \<^verbatim>\<open>JSON.parse\<close> returns. A number is held as the
  decimal text that the host language prints for it (\<^verbatim>\<open>String(n)\<close>): the generator prints
  numbers and tests them for truth, and does nothing else with them. An object is the list
  of its entries in the order of \<^verbatim>\<open>Object.entries\<close>. A property that is absent reads as
  \<^verbatim>\<open>undefined\<close>, which is \<open>None\<close> here; \<^verbatim>\<open>null\<close> is \<open>Some JNull\<close>.
\<close>

datatype json =
    JNull
  | JBool bool
  | JNum string
  | JStr string
  | JArr "json list"
  | JObj "(string \<times> json) list"

datatype error = TypeError

text \<open>Reading a property of a value that is not \<^verbatim>\<open>null\<close>. Only objects have the
  properties that the generator reads.\<close>

fun getProp :: "json \<Rightarrow> string \<Rightarrow> json option" where
  "getProp (JObj es) k = map_of es k"
| "getProp v k = None"

fun truthy :: "json \<Rightarrow> bool" where
  "truthy JNull = False"
| "truthy (JBool b) = b"
| "truthy (JNum n) = (n \<noteq> ''0'')"
| "truthy (JStr s) = (s \<noteq> [])"
| "truthy (JArr xs) = True"
| "truthy (JObj es) = True"

text \<open>\<^verbatim>\<open>a || b\<close> on two property reads, and \<^verbatim>\<open>a || d\<close> with a default that is a value.\<close>

fun orElse :: "json option \<Rightarrow> json option \<Rightarrow> json option" where
  "orElse (Some a) b = (if truthy a then Some a else b)"
| "orElse None b = b"

fun orDefault :: "json option \<Rightarrow> json \<Rightarrow> json" where
  "orDefault (Some a) d = (if truthy a then a else d)"
| "orDefault None d = d"

text \<open>The text of a value inside a template literal. An array prints its elements
  separated by commas, with nothing for \<^verbatim>\<open>null\<close>.\<close>

fun toStringJs :: "json \<Rightarrow> string" where
  "toStringJs JNull = ''null''"
| "toStringJs (JBool b) = (if b then ''true'' else ''false'')"
| "toStringJs (JNum n) = n"
| "toStringJs (JStr s) = s"
| "toStringJs (JArr xs) = join '','' (map (\<lambda>x. if x = JNull then [] else toStringJs x) xs)"
| "toStringJs (JObj es) = ''[object Object]''"

text \<open>\<^verbatim>\<open>JSON.stringify\<close> of a parsed value.\<close>

definition hexDigit :: "nat \<Rightarrow> char" where
  "hexDigit n = (if n < 10 then char_of (48 + n) else char_of (87 + n))"

definition quoteChar :: "char \<Rightarrow> string" where
  "quoteChar c =
     (if c = CHR 0x22 then [CHR 0x5C, CHR 0x22]
      else if c = CHR 0x5C then [CHR 0x5C, CHR 0x5C]
      else if c = CHR 0x08 then [CHR 0x5C, CHR ''b'']
      else if c = CHR 0x09 then [CHR 0x5C, CHR ''t'']
      else if c = CHR 0x0A then [CHR 0x5C, CHR ''n'']
      else if c = CHR 0x0C then [CHR 0x5C, CHR ''f'']
      else if c = CHR 0x0D then [CHR 0x5C, CHR ''r'']
      else if (of_char c :: nat) < 32
        then [CHR 0x5C, CHR ''u'', CHR ''0'', CHR ''0'',
              hexDigit ((of_char c :: nat) div 16), hexDigit ((of_char c :: nat) mod 16)]
      else [c])"

definition quoteString :: "string \<Rightarrow> string" where
  "quoteString s = [CHR 0x22] @ concat (map quoteChar s) @ [CHR 0x22]"

fun stringify :: "json \<Rightarrow> string" where
  "stringify JNull = ''null''"
| "stringify (JBool b) = (if b then ''true'' else ''false'')"
| "stringify (JNum n) = n"
| "stringify (JStr s) = quoteString s"
| "stringify (JArr xs) = ''['' @ join '','' (map stringify xs) @ '']''"
| "stringify (JObj es) =
     ''{'' @ join '','' (map (\<lambda>(k, v). quoteString k @ '':'' @ stringify v) es) @ ''}''"

section \<open>The value converter\<close>

definition isBoxShadow :: "json \<Rightarrow> bool" where
  "isBoxShadow obj =
     ((getProp obj ''x'' \<noteq> None \<and> getProp obj ''y'' \<noteq> None)
      \<or> getProp obj ''type'' = Some (JStr ''dropShadow'')
      \<or> getProp obj ''type'' = Some (JStr ''innerShadow''))"

text \<open>\<^verbatim>\<open>convertShadowObject(shadow)\<close>. An element of a shadow array may be
  \<^verbatim>\<open>null\<close>, and reading \<^verbatim>\<open>shadow.x\<close> then throws.\<close>

definition convertShadowObject :: "json \<Rightarrow> error + string" where
  "convertShadowObject shadow =
     (if shadow = JNull then Inl TypeError
      else
        let x = orDefault (getProp shadow ''x'') (JNum ''0'');
            y = orDefault (getProp shadow ''y'') (JNum ''0'');
            blur = orDefault (getProp shadow ''blur'') (JNum ''0'');
            spread = orDefault (getProp shadow ''spread'') (JNum ''0'');
            color = orDefault (getProp shadow ''color'') (JStr ''#000'');
            type = orDefault (getProp shadow ''type'') (JStr ''dropShadow'');
            inset = (if type = JStr ''innerShadow'' then ''inset '' else [])
        in Inr (inset @ toStringJs x @ ''px '' @ toStringJs y @ ''px '' @ toStringJs blur
                @ ''px '' @ toStringJs spread @ ''px '' @ toStringJs color))"

text \<open>\<^verbatim>\<open>value.map((shadow) => this.convertShadowObject(shadow))\<close>: the first element
  that throws ends the call.\<close>

fun mapShadows :: "json list \<Rightarrow> error + string list" where
  "mapShadows [] = Inr []"
| "mapShadows (x # xs) =
     (case convertShadowObject x of
        Inl e \<Rightarrow> Inl e
      | Inr s \<Rightarrow> (case mapShadows xs of Inl e \<Rightarrow> Inl e | Inr ss \<Rightarrow> Inr (s # ss)))"

text \<open>A default of a destructuring pattern applies to \<^verbatim>\<open>undefined\<close> only.\<close>

fun withDefault :: "json option \<Rightarrow> json \<Rightarrow> json" where
  "withDefault (Some a) d = a"
| "withDefault None d = d"

text \<open>
  \<^verbatim>\<open>convertValue(value, type = null)\<close>. The result is a string, a number or another
  value passed through, or for a typography token the object of its five properties. The
  type is only compared with string constants, so \<^verbatim>\<open>undefined\<close> and \<^verbatim>\<open>null\<close> need not be
  told apart in it.
\<close>

function convertValue :: "json \<Rightarrow> json option \<Rightarrow> error + json" where
  "convertValue (JObj es) type =
     (case map_of es ''value'' of
        Some v \<Rightarrow> convertValue v (map_of es ''type'')
      | None \<Rightarrow>
          if type = Some (JStr ''boxShadow'') \<or> isBoxShadow (JObj es)
          then map_sum id JStr (convertShadowObject (JObj es))
          else if type = Some (JStr ''border'')
          then Inr (JStr (toStringJs (withDefault (map_of es ''width'') (JNum ''1'')) @ ''px ''
                          @ toStringJs (withDefault (map_of es ''style'') (JStr ''solid'')) @ '' ''
                          @ toStringJs (withDefault (map_of es ''color'') (JStr ''#000''))))
          else if type = Some (JStr ''typography'')
          then Inr (JObj
                 [(''font-family'', orDefault (map_of es ''fontFamily'') (JStr ''inherit'')),
                  (''font-size'',
                     (case map_of es ''fontSize'' of
                        Some f \<Rightarrow> if truthy f then JStr (toStringJs f @ ''px'') else JStr ''inherit''
                      | None \<Rightarrow> JStr ''inherit'')),
                  (''font-weight'', orDefault (map_of es ''fontWeight'') (JStr ''inherit'')),
                  (''line-height'', orDefault (map_of es ''lineHeight'') (JStr ''inherit'')),
                  (''letter-spacing'',
                     (case map_of es ''letterSpacing'' of
                        Some l \<Rightarrow> if truthy l then JStr (toStringJs l @ ''px'') else JStr ''normal''
                      | None \<Rightarrow> JStr ''normal''))])
          else Inr (JStr (stringify (JObj es))))"
| "convertValue (JArr xs) type =
     (if type = Some (JStr ''boxShadow'') \<or> isBoxShadow (JArr xs)
      then map_sum id (\<lambda>ss. JStr (join '', '' ss)) (mapShadows xs)
      else if type = Some (JStr ''border'')
      then Inr (JStr ''1px solid #000'')
      else if type = Some (JStr ''typography'')
      then Inr (JObj
             [(''font-family'', JStr ''inherit''),
              (''font-size'', JStr ''inherit''),
              (''font-weight'', JStr ''inherit''),
              (''line-height'', JStr ''inherit''),
              (''letter-spacing'', JStr ''normal'')])
      else Inr (JStr (stringify (JArr xs))))"
| "convertValue (JNum n) type =
     (if type = Some (JStr ''dimension'') \<or> type = Some (JStr ''spacing'')
         \<or> type = Some (JStr ''borderRadius'')
      then Inr (JStr (n @ ''px''))
      else Inr (JNum n))"
| "convertValue (JStr s) type =
     (if includesStr s ''var(--'' then Inr (JStr s)
      else Inr (JStr (processStringReferences s type)))"
| "convertValue (JBool b) type = Inr (JBool b)"
| "convertValue JNull type = Inr JNull"
  by pat_completeness auto
termination
proof (relation "measure (\<lambda>(v, t). size v)")
  fix es :: "(string \<times> json) list" and type :: "json option" and v :: json
  assume "map_of es ''value'' = Some v"
  then have "(''value'', v) \<in> set es" by (rule map_of_SomeD)
  then have "size v < Suc (size_list (size_prod (\<lambda>_. 0) size) es)"
    by (induction es) auto
  then show "((v, map_of es ''type''), (JObj es, type)) \<in> measure (\<lambda>(v, t). size v)"
    by simp
qed simp

section \<open>The token flattener\<close>

text \<open>
  The category accumulator is an object whose keys are category keys; it is the list of
  its entries, in insertion order. The generator inserts keys in the order in which
  \<^verbatim>\<open>Object.entries\<close> lists the categories of the document, so appending a new key keeps
  the list in the order of \<^verbatim>\<open>Object.entries\<close>.
\<close>

record category =
  variables :: "string list"
  mixins :: "string list"

type_synonym categories = "(string \<times> category) list"

text \<open>The accumulator starts as \<^verbatim>\<open>{}\<close>, so reading a key it does not own finds what
  \<^verbatim>\<open>Object.prototype\<close> has under that name.\<close>

definition objectPrototypeKeys :: "string list" where
  "objectPrototypeKeys =
     [''constructor'', ''__defineGetter__'', ''__defineSetter__'', ''hasOwnProperty'',
      ''__lookupGetter__'', ''__lookupSetter__'', ''isPrototypeOf'', ''propertyIsEnumerable'',
      ''toString'', ''valueOf'', ''__proto__'', ''toLocaleString'']"

text \<open>\<^verbatim>\<open>if (!categories[categoryKey]) categories[categoryKey] = { variables: [], mixins: [] }\<close>.\<close>

definition ensureCategory :: "string \<Rightarrow> categories \<Rightarrow> categories" where
  "ensureCategory categoryKey cats =
     (if map_of cats categoryKey \<noteq> None \<or> categoryKey \<in> set objectPrototypeKeys then cats
      else cats @ [(categoryKey, \<lparr>variables = [], mixins = []\<rparr>)])"

text \<open>\<^verbatim>\<open>categories[categoryKey].variables.push(line)\<close> and the same for mixins. Where the
  key is not the accumulator's own, the value read is inherited and has no such array:
  the call throws.\<close>

definition pushVariable :: "string \<Rightarrow> string \<Rightarrow> categories \<Rightarrow> error + categories" where
  "pushVariable categoryKey line cats =
     (case map_of cats categoryKey of
        None \<Rightarrow> Inl TypeError
      | Some c \<Rightarrow>
          Inr (map (\<lambda>(k, c). if k = categoryKey then (k, c\<lparr>variables := variables c @ [line]\<rparr>)
                              else (k, c)) cats))"

definition pushMixin :: "string \<Rightarrow> string \<Rightarrow> categories \<Rightarrow> error + categories" where
  "pushMixin categoryKey block cats =
     (case map_of cats categoryKey of
        None \<Rightarrow> Inl TypeError
      | Some c \<Rightarrow>
          Inr (map (\<lambda>(k, c). if k = categoryKey then (k, c\<lparr>mixins := mixins c @ [block]\<rparr>)
                              else (k, c)) cats))"

fun pushVariables :: "string \<Rightarrow> string list \<Rightarrow> categories \<Rightarrow> error + categories" where
  "pushVariables categoryKey [] cats = Inr cats"
| "pushVariables categoryKey (line # lines) cats =
     (case pushVariable categoryKey line cats of
        Inl e \<Rightarrow> Inl e
      | Inr cats' \<Rightarrow> pushVariables categoryKey lines cats')"

text \<open>The decimal text of an array index.\<close>

fun showNat :: "nat \<Rightarrow> string" where
  "showNat n = (if n < 10 then [char_of (48 + n)] else showNat (n div 10) @ [char_of (48 + n mod 10)])"

text \<open>\<^verbatim>\<open>Object.entries(v)\<close>: it throws on \<^verbatim>\<open>null\<close>, lists the elements of an array and
  the characters of a string under their indices, and is empty for a number or a boolean.\<close>

fun indexed :: "nat \<Rightarrow> json list \<Rightarrow> (string \<times> json) list" where
  "indexed i [] = []"
| "indexed i (x # xs) = (showNat i, x) # indexed (Suc i) xs"

fun objectEntries :: "json \<Rightarrow> error + (string \<times> json) list" where
  "objectEntries JNull = Inl TypeError"
| "objectEntries (JObj es) = Inr es"
| "objectEntries (JArr xs) = Inr (indexed 0 xs)"
| "objectEntries (JStr s) = Inr (indexed 0 (map (\<lambda>c. JStr [c]) s))"
| "objectEntries (JNum n) = Inr []"
| "objectEntries (JBool b) = Inr []"

text \<open>\<^verbatim>\<open>.replace(/[\\\/]/g, "-")\<close>.\<close>

definition replaceSlashes :: "string \<Rightarrow> string" where
  "replaceSlashes s = map (\<lambda>c. if c = CHR 0x5C \<or> c = CHR ''/'' then CHR ''-'' else c) s"

text \<open>\<^verbatim>\<open>s.replace(pat, "")\<close> with a string pattern: the first occurrence goes.\<close>

fun removeFirst :: "string \<Rightarrow> string \<Rightarrow> string" where
  "removeFirst pat [] = []"
| "removeFirst pat (c # cs) =
     (if startsWith (c # cs) pat then drop (length pat) (c # cs) else c # removeFirst pat cs)"

text \<open>\<^verbatim>\<open>const categoryKey = baseName.replace(/[\\\/]/g, "-").toLowerCase()\<close>.\<close>

definition categoryKeyOf :: "string \<Rightarrow> string" where
  "categoryKeyOf baseName = toLowerCase (replaceSlashes baseName)"

text \<open>\<^verbatim>\<open>value && typeof value === "object" && (value.$type || value.type)\<close>.\<close>

definition isLeaf :: "json \<Rightarrow> bool" where
  "isLeaf value =
     (case orElse (getProp value ''$type'') (getProp value ''type'') of
        Some t \<Rightarrow> truthy t
      | None \<Rightarrow> False)"

definition tokenTypeOf :: "json \<Rightarrow> json option" where
  "tokenTypeOf value = orElse (getProp value ''$type'') (getProp value ''type'')"

definition tokenValueOf :: "json \<Rightarrow> json option" where
  "tokenValueOf value = orElse (getProp value ''$value'') (getProp value ''value'')"

text \<open>\<^verbatim>\<open>typeof converted === "object"\<close>, which holds of \<^verbatim>\<open>null\<close> too.\<close>

fun isObjectType :: "json \<Rightarrow> bool" where
  "isObjectType JNull = True"
| "isObjectType (JArr xs) = True"
| "isObjectType (JObj es) = True"
| "isObjectType v = False"

text \<open>The second pass over a converted string that has no \<^verbatim>\<open>var(--\<close> in it.\<close>

fun secondPass :: "json \<Rightarrow> json option \<Rightarrow> json" where
  "secondPass (JStr s) tokenType =
     (if \<not> includesStr s ''var(--'' then JStr (processStringReferences s tokenType) else JStr s)"
| "secondPass v tokenType = v"

definition mixinBlock :: "string \<Rightarrow> (string \<times> json) list \<Rightarrow> string" where
  "mixinBlock tokenName props =
     ''@mixin '' @ tokenName @ '' {\<newline>''
     @ concat (map (\<lambda>(prop, val). ''  '' @ prop @ '': '' @ toStringJs val @ '';\<newline>'') props)
     @ ''}''"

definition typographyVariables :: "string \<Rightarrow> (string \<times> json) list \<Rightarrow> string list" where
  "typographyVariables tokenName props =
     map (\<lambda>(prop, val). ''--'' @ tokenName @ ''-'' @ removeFirst ''font-'' prop @ '': ''
                          @ toStringJs val @ '';'') props"

text \<open>
  The body of the leaf branch of \<^verbatim>\<open>flattenTokens\<close>, for one token at the path
  \<open>tokenName\<close>: the category is created, a token without a value is passed over, and
  otherwise the value is converted and its declarations are pushed.
\<close>

definition emitToken :: "json \<Rightarrow> string \<Rightarrow> categories \<Rightarrow> string \<Rightarrow> error + categories" where
  "emitToken value baseName cats tokenName =
     (let categoryKey = categoryKeyOf baseName;
          cats1 = ensureCategory categoryKey cats;
          tokenType = tokenTypeOf value
      in case tokenValueOf value of
           None \<Rightarrow> Inr cats1
         | Some JNull \<Rightarrow> Inr cats1
         | Some tokenValue \<Rightarrow>
             (case convertValue tokenValue tokenType of
                Inl e \<Rightarrow> Inl e
              | Inr c \<Rightarrow>
                  let converted = secondPass c tokenType
                  in if tokenType = Some (JStr ''typography'') \<and> isObjectType converted
                     then (case objectEntries converted of
                             Inl e \<Rightarrow> Inl e
                           | Inr props \<Rightarrow>
                               (case pushMixin categoryKey (mixinBlock tokenName props) cats1 of
                                  Inl e \<Rightarrow> Inl e
                                | Inr cats2 \<Rightarrow>
                                    pushVariables categoryKey
                                      (typographyVariables tokenName props) cats2))
                     else pushVariable categoryKey
                            (''--'' @ tokenName @ '': '' @ toStringJs converted @ '';'') cats1))"

text \<open>\<^verbatim>\<open>const normalizedKey = this.normalizeTokenName(key)\<close> and
  \<^verbatim>\<open>const currentPath = prefix ? `${prefix}-${normalizedKey}` : normalizedKey\<close>.\<close>

definition currentPathOf :: "string \<Rightarrow> string \<Rightarrow> string" where
  "currentPathOf pathPrefix key =
     (let normalizedKey = normalizeTokenName key
      in if pathPrefix \<noteq> [] then pathPrefix @ ''-'' @ normalizedKey else normalizedKey)"

text \<open>
  \<^verbatim>\<open>flattenTokens(obj, baseName, categories, prefix = "")\<close>, on the entries of \<open>obj\<close>;
  the parameter \<^verbatim>\<open>prefix\<close> is \<open>pathPrefix\<close> here.
  The accumulator is passed in and returned. The recursive call is made on a value that
  is an object and not an array, whose entries are the list it holds.
\<close>

fun flattenTokens ::
  "(string \<times> json) list \<Rightarrow> string \<Rightarrow> categories \<Rightarrow> string \<Rightarrow> error + categories" where
  "flattenTokens [] baseName cats pathPrefix = Inr cats"
| "flattenTokens ((key, value) # rest) baseName cats pathPrefix =
     (if key = [] \<or> startsWith key ''$'' then flattenTokens rest baseName cats pathPrefix
      else
        let currentPath = currentPathOf pathPrefix key
        in if isLeaf value
           then (case emitToken value baseName cats currentPath of
                   Inl e \<Rightarrow> Inl e
                 | Inr cats' \<Rightarrow> flattenTokens rest baseName cats' pathPrefix)
           else (case value of
                   JObj es \<Rightarrow>
                     (case flattenTokens es baseName cats currentPath of
                        Inl e \<Rightarrow> Inl e
                      | Inr cats' \<Rightarrow> flattenTokens rest baseName cats' pathPrefix)
                 | _ \<Rightarrow> flattenTokens rest baseName cats pathPrefix))"

text \<open>The loop of \<^verbatim>\<open>generateSCSS\<close> over the categories of the document.\<close>

fun flattenDocument :: "(string \<times> json) list \<Rightarrow> categories \<Rightarrow> error + categories" where
  "flattenDocument [] cats = Inr cats"
| "flattenDocument ((categoryName, categoryTokens) # rest) cats =
     (if startsWith categoryName ''$'' \<or> startsWith categoryName ''_''
      then flattenDocument rest cats
      else (case objectEntries categoryTokens of
              Inl e \<Rightarrow> Inl e
            | Inr es \<Rightarrow>
                (case flattenTokens es categoryName cats [] of
                   Inl e \<Rightarrow> Inl e
                 | Inr cats' \<Rightarrow> flattenDocument rest cats')))"

section \<open>The theme partitioner and the stylesheet emitter\<close>

text \<open>
  A written file is a pair of its path below the output directory and its text. The
  filesystem itself is not modelled: each generator returns what it writes.
\<close>

type_synonym written = "string \<times> string"

text \<open>\<^verbatim>\<open>s.charAt(0).toUpperCase() + s.slice(1)\<close>.\<close>

fun capitalize :: "string \<Rightarrow> string" where
  "capitalize [] = []"
| "capitalize (c # cs) = toUpperChar c # cs"

text \<open>\<^verbatim>\<open>.replace(/light|dark/gi, "")\<close>.\<close>

function removeThemeWords :: "string \<Rightarrow> string" where
  "removeThemeWords [] = []"
| "removeThemeWords (c # cs) =
     (if startsWith (toLowerCase (c # cs)) ''light'' then removeThemeWords (drop 5 (c # cs))
      else if startsWith (toLowerCase (c # cs)) ''dark'' then removeThemeWords (drop 4 (c # cs))
      else c # removeThemeWords cs)"
  by pat_completeness auto
termination
  by (relation "measure length") auto

text \<open>\<^verbatim>\<open>variable.replace(/(-light|-dark)(?=:)/, "")\<close>: the first \<^verbatim>\<open>-light\<close> or
  \<^verbatim>\<open>-dark\<close> that stands before a colon goes, and nothing after it is touched.\<close>

fun removeThemeSuffix :: "string \<Rightarrow> string" where
  "removeThemeSuffix [] = []"
| "removeThemeSuffix (c # cs) =
     (if startsWith (c # cs) ''-light:'' then drop 6 (c # cs)
      else if startsWith (c # cs) ''-dark:'' then drop 5 (c # cs)
      else c # removeThemeSuffix cs)"

text \<open>
  The three buckets of \<^verbatim>\<open>generateBaseFile\<close>: \<^verbatim>\<open>themeTokens.light\<close>,
  \<^verbatim>\<open>themeTokens.dark\<close> and \<^verbatim>\<open>baseTokens\<close>, each holding the variables of its categories.
\<close>

record buckets =
  light :: "(string \<times> string list) list"
  dark :: "(string \<times> string list) list"
  base :: "(string \<times> string list) list"

fun partitionThemes :: "categories \<Rightarrow> buckets \<Rightarrow> buckets" where
  "partitionThemes [] b = b"
| "partitionThemes ((categoryName, c) # rest) b =
     (let lowerCategoryName = toLowerCase categoryName
      in if includesStr lowerCategoryName ''light''
         then partitionThemes rest (b\<lparr>light := light b @ [(categoryName, variables c)]\<rparr>)
         else if includesStr lowerCategoryName ''dark''
         then partitionThemes rest (b\<lparr>dark := dark b @ [(categoryName, variables c)]\<rparr>)
         else partitionThemes rest (b\<lparr>base := base b @ [(categoryName, variables c)]\<rparr>))"

text \<open>The lines of one category inside a \<^verbatim>\<open>:root\<close> block, after its comment.\<close>

definition variablesBlock :: "(string \<times> string list) list \<Rightarrow> string" where
  "variablesBlock cats =
     concat (map (\<lambda>(categoryName, vars).
        if vars \<noteq> []
        then ''\<newline>  // '' @ capitalize categoryName @ '' tokens\<newline>''
             @ concat (map (\<lambda>variable. ''  '' @ variable @ ''\<newline>'') vars)
        else []) cats)"

definition generateVariablesFile :: "(string \<times> string list) list \<Rightarrow> written" where
  "generateVariablesFile cats =
     (''base/_variables.scss'',
      globalFixReferences
        (''// Design Tokens - Base CSS Variables\<newline>''
         @ ''// Automatically generated from Figma tokens\<newline>''
         @ ''// Theme-independent tokens\<newline>''
         @ ''\<newline>''
         @ '':root {\<newline>''
         @ variablesBlock cats
         @ ''}\<newline>''))"

definition themeBlock :: "(string \<times> string list) list \<Rightarrow> string" where
  "themeBlock cats =
     concat (map (\<lambda>(categoryName, vars).
        if vars \<noteq> []
        then ''\<newline>  // '' @ capitalize (trim (removeThemeWords categoryName)) @ '' tokens\<newline>''
             @ concat (map (\<lambda>variable. ''  '' @ removeThemeSuffix variable @ ''\<newline>'') vars)
        else []) cats)"

definition generateThemeFile :: "string \<Rightarrow> (string \<times> string list) list \<Rightarrow> written" where
  "generateThemeFile themeName cats =
     (''base/_'' @ themeName @ ''.scss'',
      globalFixReferences
        (''// Design Tokens - '' @ capitalize themeName @ '' Theme\<newline>''
         @ ''// Automatically generated from Figma tokens\<newline>''
         @ ''\<newline>''
         @ ''@import '' @ [CHR 0x27] @ ''variables'' @ [CHR 0x27] @ '';\<newline>''
         @ ''\<newline>''
         @ (if themeName = ''light'' then '':root {\<newline>'' else ''.'' @ themeName @ '' {\<newline>'')
         @ themeBlock cats
         @ ''}\<newline>''))"

definition generateBaseFile :: "categories \<Rightarrow> written list" where
  "generateBaseFile cats =
     (let b = partitionThemes cats \<lparr>light = [], dark = [], base = []\<rparr>
      in [generateVariablesFile (base b)]
         @ (if light b \<noteq> [] then [generateThemeFile ''light'' (light b)] else [])
         @ (if dark b \<noteq> [] then [generateThemeFile ''dark'' (dark b)] else []))"

subsection \<open>Utility classes\<close>

text \<open>\<^verbatim>\<open>mixin.match(/@mixin ([^{]+)/)\<close>: the captured group of the first match.\<close>

fun matchMixinName :: "string \<Rightarrow> string option" where
  "matchMixinName [] = None"
| "matchMixinName (c # cs) =
     (if startsWith (c # cs) ''@mixin '' \<and> takeWhile (\<lambda>x. x \<noteq> CHR ''{'') (drop 7 (c # cs)) \<noteq> []
      then Some (takeWhile (\<lambda>x. x \<noteq> CHR ''{'') (drop 7 (c # cs)))
      else matchMixinName cs)"

text \<open>\<^verbatim>\<open>variable.match(/--([^:]+):/)\<close>: the captured group of the first match. After
  the two hyphens the class takes every character up to the next colon.\<close>

fun matchVariableName :: "string \<Rightarrow> string option" where
  "matchVariableName [] = None"
| "matchVariableName (c # cs) =
     (if startsWith (c # cs) ''--''
         \<and> takeWhile (\<lambda>x. x \<noteq> CHR '':'') (drop 2 (c # cs)) \<noteq> []
         \<and> dropWhile (\<lambda>x. x \<noteq> CHR '':'') (drop 2 (c # cs)) \<noteq> []
      then Some (takeWhile (\<lambda>x. x \<noteq> CHR '':'') (drop 2 (c # cs)))
      else matchVariableName cs)"

text \<open>\<^verbatim>\<open>className.match(/\d+$/)\<close>: the name ends in a digit.\<close>

definition endsInDigits :: "string \<Rightarrow> bool" where
  "endsInDigits s = (s \<noteq> [] \<and> isDigit (last s))"

text \<open>\<^verbatim>\<open>variable.match(/--[^:]*-\d+:/)\<close>: after two hyphens, the characters up to the
  next colon end in a hyphen and a run of digits.\<close>

fun matchNumbered :: "string \<Rightarrow> bool" where
  "matchNumbered [] = False"
| "matchNumbered (c # cs) =
     ((startsWith (c # cs) ''--''
         \<and> dropWhile (\<lambda>x. x \<noteq> CHR '':'') (drop 2 (c # cs)) \<noteq> []
         \<and> takeWhile isDigit (rev (takeWhile (\<lambda>x. x \<noteq> CHR '':'') (drop 2 (c # cs)))) \<noteq> []
         \<and> (case dropWhile isDigit (rev (takeWhile (\<lambda>x. x \<noteq> CHR '':'') (drop 2 (c # cs)))) of
               [] \<Rightarrow> False
             | d # ds \<Rightarrow> d = CHR ''-''))
      \<or> matchNumbered cs)"

definition hasColorTokens :: "string list \<Rightarrow> bool" where
  "hasColorTokens vars =
     list_ex (\<lambda>variable. includesStr variable ''color'' \<or> includesStr variable ''background''
                          \<or> matchNumbered variable) vars"

definition hasSpacingTokens :: "string list \<Rightarrow> bool" where
  "hasSpacingTokens vars =
     list_ex (\<lambda>variable. includesStr variable ''spacing'' \<or> includesStr variable ''padding''
                          \<or> includesStr variable ''margin'' \<or> includesStr variable ''gap'') vars"

definition componentPatterns :: "string list" where
  "componentPatterns =
     [''background'', ''border'', ''hover'', ''active'', ''focus'', ''disabled'', ''checked'',
      ''selected'']"

definition isComponentTokens :: "string list \<Rightarrow> bool" where
  "isComponentTokens vars =
     list_ex (\<lambda>variable. list_ex (\<lambda>pattern. includesStr variable pattern) componentPatterns) vars"

definition generateColorUtilities :: "string list \<Rightarrow> string" where
  "generateColorUtilities vars =
     concat (map (\<lambda>variable.
        case matchVariableName variable of
          None \<Rightarrow> []
        | Some className \<Rightarrow>
            if includesStr className ''color'' \<or> includesStr className ''background''
               \<or> endsInDigits className
            then ''.text-'' @ className @ '' { color: var(--'' @ className @ ''); }\<newline>''
                 @ ''.bg-'' @ className @ '' { background-color: var(--'' @ className @ ''); }\<newline>''
                 @ ''.border-'' @ className @ '' { border-color: var(--'' @ className @ ''); }\<newline>''
            else []) vars)"

definition generateSpacingUtilities :: "string list \<Rightarrow> string" where
  "generateSpacingUtilities vars =
     concat (map (\<lambda>variable.
        case matchVariableName variable of
          None \<Rightarrow> []
        | Some className \<Rightarrow>
            if includesStr className ''spacing'' \<or> includesStr className ''padding''
               \<or> includesStr className ''margin''
            then ''.m-'' @ className @ '' { margin: var(--'' @ className @ ''); }\<newline>''
                 @ ''.p-'' @ className @ '' { padding: var(--'' @ className @ ''); }\<newline>''
            else []) vars)"

definition mapTokenToProperty :: "string \<Rightarrow> string option" where
  "mapTokenToProperty tokenName =
     (if includesStr tokenName ''background'' then Some ''background''
      else if includesStr tokenName ''color'' \<and> \<not> includesStr tokenName ''background''
      then Some ''color''
      else if includesStr tokenName ''border-color'' then Some ''border-color''
      else if includesStr tokenName ''border-radius'' then Some ''border-radius''
      else if includesStr tokenName ''padding'' then Some ''padding''
      else if includesStr tokenName ''margin'' then Some ''margin''
      else if includesStr tokenName ''font-size'' then Some ''font-size''
      else if includesStr tokenName ''font-weight'' then Some ''font-weight''
      else if includesStr tokenName ''line-height'' then Some ''line-height''
      else None)"

text \<open>
  \<^verbatim>\<open>generateComponentUtilities(categoryName, categoryData)\<close> reads \<^verbatim>\<open>categoryData.base\<close>
  and \<^verbatim>\<open>categoryData[state]\<close>. Its one caller, \<^verbatim>\<open>generateBasicUtilities\<close>, passes the array
  of the category's variables as \<^verbatim>\<open>categoryData\<close>. An array of strings has its indices and
  its length and the methods of arrays, and none of the names read here, so each read gives
  \<^verbatim>\<open>undefined\<close>.
\<close>

definition readNamed :: "string list \<Rightarrow> string \<Rightarrow> string list option" where
  "readNamed categoryData name = None"

definition states :: "string list" where
  "states = [''hover'', ''active'', ''focus'', ''disabled'', ''checked'', ''selected'']"

definition baseRuleLines :: "string list \<Rightarrow> string" where
  "baseRuleLines baseVars =
     concat (map (\<lambda>variable.
        case matchVariableName variable of
          None \<Rightarrow> []
        | Some tokenName \<Rightarrow>
            (case mapTokenToProperty tokenName of
               None \<Rightarrow> []
             | Some property \<Rightarrow> ''  '' @ property @ '': var(--'' @ tokenName @ '');\<newline>'')) baseVars)"

definition stateRule :: "string \<Rightarrow> string \<Rightarrow> string list \<Rightarrow> string" where
  "stateRule categoryName state stateVars =
     (if stateVars = [] then []
      else ''.'' @ categoryName @ '':'' @ state @ '' {\<newline>''
           @ concat (map (\<lambda>variable.
               case matchVariableName variable of
                 None \<Rightarrow> []
               | Some tokenName \<Rightarrow>
                   (case mapTokenToProperty (removeFirst (''-'' @ state) tokenName) of
                      None \<Rightarrow> []
                    | Some property \<Rightarrow>
                        ''  '' @ property @ '': var(--'' @ tokenName @ '');\<newline>'')) stateVars)
           @ ''}\<newline>\<newline>'')"

definition generateComponentUtilities :: "string \<Rightarrow> string list \<Rightarrow> string" where
  "generateComponentUtilities categoryName categoryData =
     ''// '' @ categoryName @ '' component utilities\<newline>''
     @ ''.'' @ categoryName @ '' {\<newline>''
     @ ''  // Base styles using tokens\<newline>''
     @ baseRuleLines (case readNamed categoryData ''base'' of Some vs \<Rightarrow> vs | None \<Rightarrow> [])
     @ ''}\<newline>\<newline>''
     @ concat (map (\<lambda>state.
         stateRule categoryName state
           (case readNamed categoryData state of Some vs \<Rightarrow> vs | None \<Rightarrow> [])) states)"

definition mixinUtilities :: "string list \<Rightarrow> string" where
  "mixinUtilities ms =
     concat (map (\<lambda>mixin.
        case matchMixinName mixin of
          None \<Rightarrow> []
        | Some m \<Rightarrow> ''.'' @ trim m @ '' { @include '' @ trim m @ ''; }\<newline>'') ms)"

definition generateBasicUtilities :: "string \<Rightarrow> string list \<Rightarrow> string list \<Rightarrow> string" where
  "generateBasicUtilities categoryName vars ms =
     (let utilities =
            mixinUtilities ms
            @ (if includesStr categoryName ''color'' \<or> hasColorTokens vars
               then generateColorUtilities vars else [])
            @ (if includesStr categoryName ''spacing'' \<or> hasSpacingTokens vars
               then generateSpacingUtilities vars else [])
            @ (if isComponentTokens vars
               then generateComponentUtilities categoryName vars else [])
      in if utilities \<noteq> [] then utilities
         else ''// No utilities generated for '' @ categoryName @ ''\<newline>'')"

text \<open>The text of a component file before its utility classes: the header, the
  imports and the mixins.\<close>

definition categoryHeader :: "string \<Rightarrow> string list \<Rightarrow> string" where
  "categoryHeader categoryName ms =
     ''// '' @ capitalize categoryName @ '' Tokens\<newline>''
     @ ''// Automatically generated from Figma tokens\<newline>''
     @ ''\<newline>''
     @ ''@import '' @ [CHR 0x27] @ ''../base/variables'' @ [CHR 0x27] @ '';\<newline>''
     @ ''\<newline>''
     @ (if includesStr (toLowerCase categoryName) ''light''
        then ''@import '' @ [CHR 0x27] @ ''../base/light'' @ [CHR 0x27] @ '';\<newline>\<newline>''
        else if includesStr (toLowerCase categoryName) ''dark''
        then ''@import '' @ [CHR 0x27] @ ''../base/dark'' @ [CHR 0x27] @ '';\<newline>\<newline>''
        else [])
     @ (if ms \<noteq> []
        then ''// Mixins\<newline>'' @ concat (map (\<lambda>mixin. mixin @ ''\<newline>\<newline>'') ms)
        else [])
     @ ''// Utility Classes\<newline>''"

definition generateCategoryFile :: "string \<Rightarrow> string list \<Rightarrow> string list \<Rightarrow> written" where
  "generateCategoryFile categoryName vars ms =
     (''components/_'' @ toLowerCase (replaceSlashes categoryName) @ ''.scss'',
      categoryHeader categoryName ms @ generateBasicUtilities categoryName vars ms)"

definition generateIndexFile :: "string list \<Rightarrow> written" where
  "generateIndexFile cats =
     (''index.scss'',
      ''// Design Tokens - Main Index\<newline>''
      @ ''// Automatically generated from Figma tokens\<newline>''
      @ ''\<newline>''
      @ ''// Base files\<newline>''
      @ ''@import '' @ [CHR 0x27] @ ''base/variables'' @ [CHR 0x27] @ '';\<newline>''
      @ ''@import '' @ [CHR 0x27] @ ''base/light'' @ [CHR 0x27] @ '';\<newline>''
      @ ''@import '' @ [CHR 0x27] @ ''base/dark'' @ [CHR 0x27] @ '';\<newline>''
      @ ''\<newline>''
      @ ''// Component files\<newline>''
      @ concat (map (\<lambda>category.
          ''@import '' @ [CHR 0x27] @ ''components/'' @ toLowerCase (replaceSlashes category)
          @ [CHR 0x27] @ '';\<newline>'') cats)
      @ ''\<newline>''
      @ ''// Theme Usage:\<newline>''
      @ ''// Add class='' @ [CHR 0x22] @ ''dark'' @ [CHR 0x22]
      @ '' to your <html> or <body> element for dark theme\<newline>''
      @ ''// Light theme is the default (applies to :root)\<newline>''
      @ ''// Example: <body class='' @ [CHR 0x22] @ ''dark'' @ [CHR 0x22] @ ''>\<newline>''
      @ ''// \<newline>''
      @ ''// For Tailwind CSS compatibility:\<newline>''
      @ ''// This works seamlessly with Tailwind'' @ [CHR 0x27] @ ''s dark mode class strategy\<newline>'')"

text \<open>
  \<^verbatim>\<open>generateSCSS()\<close>: the document is flattened into the accumulator, and the files are
  written in this order: the base files, one component file for each category of the
  accumulator, and the index.
\<close>

definition generateSCSS :: "json \<Rightarrow> error + written list" where
  "generateSCSS tokens =
     (case objectEntries tokens of
        Inl e \<Rightarrow> Inl e
      | Inr es \<Rightarrow>
          (case flattenDocument es [] of
             Inl e \<Rightarrow> Inl e
           | Inr cats \<Rightarrow>
               Inr (generateBaseFile cats
                    @ map (\<lambda>(categoryName, c).
                        generateCategoryFile categoryName (variables c) (mixins c)) cats
                    @ [generateIndexFile (map fst cats)])))"

section \<open>Notions used in the statements\<close>

text \<open>A name segment neither starts nor ends with a hyphen.\<close>

definition noOuterHyphen :: "string \<Rightarrow> bool" where
  "noOuterHyphen s = (s = [] \<or> (hd s \<noteq> CHR ''-'' \<and> last s \<noteq> CHR ''-''))"

text \<open>The variables and the mixins that the accumulator holds under a category key;
  none where it has no such key.\<close>

definition variablesOf :: "categories \<Rightarrow> string \<Rightarrow> string list" where
  "variablesOf cats k = (case map_of cats k of None \<Rightarrow> [] | Some c \<Rightarrow> variables c)"

definition mixinsOf :: "categories \<Rightarrow> string \<Rightarrow> string list" where
  "mixinsOf cats k = (case map_of cats k of None \<Rightarrow> [] | Some c \<Rightarrow> mixins c)"

text \<open>A category name or key that begins with neither \<^verbatim>\<open>$\<close> nor \<^verbatim>\<open>_\<close>.\<close>

definition unmarked :: "string \<Rightarrow> bool" where
  "unmarked k = (\<not> startsWith k ''$'' \<and> \<not> startsWith k ''_'')"




text \<open>The resolved value of a leaf token is neither \<^verbatim>\<open>undefined\<close> nor \<^verbatim>\<open>null\<close>.\<close>

definition hasValue :: "json \<Rightarrow> bool" where
  "hasValue value = (tokenValueOf value \<noteq> None \<and> tokenValueOf value \<noteq> Some JNull)"

text \<open>The normalized segments of a path joined by hyphens, without the segments at the
  front that normalize to nothing.\<close>

definition pathName :: "string list \<Rightarrow> string" where
  "pathName path = join ''-'' (dropWhile (\<lambda>s. s = []) (map normalizeTokenName path))"

text \<open>
  The text of the value of a leaf token that is declared as one custom property: the
  conversion of its value does not throw, and the result is printed as it is, unless the
  token is a typography token whose conversion gives an object.
\<close>

definition singleDeclaration :: "json \<Rightarrow> string option" where
  "singleDeclaration value =
     (case tokenValueOf value of
        None \<Rightarrow> None
      | Some tokenValue \<Rightarrow>
          (case convertValue tokenValue (tokenTypeOf value) of
             Inl e \<Rightarrow> None
           | Inr c \<Rightarrow>
               if tokenTypeOf value = Some (JStr ''typography'')
                  \<and> isObjectType (secondPass c (tokenTypeOf value))
               then None
               else Some (toStringJs (secondPass c (tokenTypeOf value)))))"

text \<open>The declarations of a list of leaf tokens: one line for each token that has a
  value, named after its path.\<close>

definition declarations :: "(string list \<times> json) list \<Rightarrow> string list" where
  "declarations leaves =
     map (\<lambda>(p, v). ''--'' @ pathName p @ '': '' @ the (singleDeclaration v) @ '';'')
       (filter (\<lambda>(p, v). hasValue v) leaves)"



section \<open>The name normalizer is idempotent\<close>

lemma isNameChar_not_upper: "isNameChar c \<Longrightarrow> \<not> isUpper c"
  by (auto simp: isNameChar_def isLower_def isUpper_def isDigit_def)

lemma isNameChar_not_space: "isNameChar c \<Longrightarrow> \<not> isSpace c"
  by (auto simp: isNameChar_def isLower_def isSpace_def isDigit_def)

lemma replaceCamel_no_upper: "\<forall>c\<in>set s. \<not> isUpper c \<Longrightarrow> replaceCamel s = s"
  by (induction s rule: replaceCamel.induct) auto

lemma replaceUpper_no_upper: "\<forall>c\<in>set s. \<not> isUpper c \<Longrightarrow> replaceUpper s = s"
  by (induction s) (auto simp: replaceUpper_def)

lemma replaceSpaces_no_space: "\<forall>c\<in>set s. \<not> isSpace c \<Longrightarrow> replaceSpaces s = s"
  by (induction s) auto

lemma removeInvalid_valid: "\<forall>c\<in>set s. isNameChar c \<Longrightarrow> removeInvalid s = s"
  by (simp add: removeInvalid_def)

lemma toLowerCase_no_upper: "\<forall>c\<in>set s. \<not> isUpper c \<Longrightarrow> toLowerCase s = s"
  by (induction s) (auto simp: toLowerCase_def toLowerChar_def)

lemma trimHyphens_fixed: "noOuterHyphen s \<Longrightarrow> trimHyphens s = s"
proof (cases s)
  case Nil
  then show ?thesis by (simp add: trimHyphens_def)
next
  case (Cons a as)
  assume "noOuterHyphen s"
  with Cons have h: "a \<noteq> CHR ''-''" and l: "last s \<noteq> CHR ''-''"
    by (auto simp: noOuterHyphen_def)
  have "dropWhile (\<lambda>c. c = CHR ''-'') s = s" using Cons h by simp
  moreover have "dropWhile (\<lambda>c. c = CHR ''-'') (rev s) = rev s"
  proof (cases "rev s")
    case Nil
    then show ?thesis by simp
  next
    case (Cons b bs)
    have "hd (rev s) = last s" using \<open>s = a # as\<close> by (simp add: hd_rev)
    with Cons l have "b \<noteq> CHR ''-''" by simp
    with Cons show ?thesis by simp
  qed
  ultimately show ?thesis by (simp add: trimHyphens_def)
qed

lemma trimHyphens_noOuterHyphen: "noOuterHyphen (trimHyphens s)"
proof -
  let ?P = "\<lambda>c. c = CHR ''-''"
  define t where "t = dropWhile ?P s"
  define u where "u = dropWhile ?P (rev t)"
  have tu: "trimHyphens s = rev u" by (simp add: trimHyphens_def t_def u_def)
  show ?thesis
  proof (cases "u = []")
    case True
    then show ?thesis by (simp add: tu noOuterHyphen_def)
  next
    case False
    then have "dropWhile ?P (rev t) \<noteq> []" by (simp add: u_def)
    then have "\<not> ?P (hd (dropWhile ?P (rev t)))" by (rule hd_dropWhile)
    then have hu: "hd u \<noteq> CHR ''-''" by (simp add: u_def)
    have "rev t = takeWhile ?P (rev t) @ u" by (simp add: u_def)
    then have "rev (rev t) = rev (takeWhile ?P (rev t) @ u)" by (rule arg_cong)
    then have t: "t = rev u @ rev (takeWhile ?P (rev t))" by simp
    then have "t \<noteq> []" using False by auto
    then have "dropWhile ?P s \<noteq> []" by (simp add: t_def)
    then have "\<not> ?P (hd (dropWhile ?P s))" by (rule hd_dropWhile)
    then have "hd t \<noteq> CHR ''-''" by (simp add: t_def)
    moreover have "hd t = hd (rev u)"
    proof -
      have "hd (rev u @ rev (takeWhile ?P (rev t))) = hd (rev u)" using False by simp
      with t show ?thesis by simp
    qed
    ultimately have "hd (rev u) \<noteq> CHR ''-''" by simp
    moreover have "last (rev u) \<noteq> CHR ''-''" using hu False by (simp add: last_rev)
    ultimately show ?thesis using False by (simp add: tu noOuterHyphen_def)
  qed
qed

lemma set_trimHyphens: "c \<in> set (trimHyphens s) \<Longrightarrow> c \<in> set s"
proof -
  assume "c \<in> set (trimHyphens s)"
  then have "c \<in> set (dropWhile (\<lambda>c. c = CHR ''-'') (rev (dropWhile (\<lambda>c. c = CHR ''-'') s)))"
    by (simp add: trimHyphens_def)
  then have "c \<in> set (rev (dropWhile (\<lambda>c. c = CHR ''-'') s))"
    by (rule set_dropWhileD)
  then have "c \<in> set (dropWhile (\<lambda>c. c = CHR ''-'') s)"
    by simp
  then show "c \<in> set s"
    by (rule set_dropWhileD)
qed

lemma normalizeTokenName_chars: "\<forall>c\<in>set (normalizeTokenName x). isNameChar c"
proof -
  let ?r = "removeInvalid (replaceSpaces (replaceUpper (replaceCamel x)))"
  have a: "\<forall>c\<in>set (trimHyphens ?r). isNameChar c"
    by (auto simp: removeInvalid_def dest: set_trimHyphens)
  then have "toLowerCase (trimHyphens ?r) = trimHyphens ?r"
    by (intro toLowerCase_no_upper) (auto dest: isNameChar_not_upper)
  with a show ?thesis by (simp add: normalizeTokenName_def)
qed

lemma normalizeTokenName_noOuterHyphen: "noOuterHyphen (normalizeTokenName x)"
proof -
  let ?r = "removeInvalid (replaceSpaces (replaceUpper (replaceCamel x)))"
  have a: "\<forall>c\<in>set (trimHyphens ?r). isNameChar c"
    by (auto simp: removeInvalid_def dest: set_trimHyphens)
  then have "toLowerCase (trimHyphens ?r) = trimHyphens ?r"
    by (intro toLowerCase_no_upper) (auto dest: isNameChar_not_upper)
  then show ?thesis by (simp add: normalizeTokenName_def trimHyphens_noOuterHyphen)
qed

lemma normalizeTokenName_fixed:
  assumes "\<forall>c\<in>set y. isNameChar c" and "noOuterHyphen y"
  shows "normalizeTokenName y = y"
proof -
  have u: "\<forall>c\<in>set y. \<not> isUpper c" and s: "\<forall>c\<in>set y. \<not> isSpace c"
    using assms(1) isNameChar_not_upper isNameChar_not_space by auto
  show ?thesis
    by (simp add: normalizeTokenName_def replaceCamel_no_upper [OF u] replaceUpper_no_upper [OF u]
        replaceSpaces_no_space [OF s] removeInvalid_valid [OF assms(1)]
        trimHyphens_fixed [OF assms(2)] toLowerCase_no_upper [OF u])
qed

text \<open>
  Claim C6. The name normalizer is idempotent: normalizing a name that is already
  normalized gives the same name, for every input string.
\<close>

theorem normalizeTokenName_idempotent:
  "normalizeTokenName (normalizeTokenName x) = normalizeTokenName x"
  by (rule normalizeTokenName_fixed [OF normalizeTokenName_chars normalizeTokenName_noOuterHyphen])

section \<open>The reference resolver and the calc wrapper\<close>

lemma startsWith_prefix: "startsWith s p \<longleftrightarrow> prefix p s"
  by (induction s p rule: startsWith.induct) auto

lemma includesStr_sublist: "includesStr s p \<longleftrightarrow> sublist p s"
  by (induction s) (auto simp: startsWith_prefix sublist_Cons_right)

lemma hasMath_set: "hasMath s \<longleftrightarrow> (\<exists>c\<in>set s. c = CHR ''+'' \<or> c = CHR ''-'' \<or> c = CHR ''*'' \<or> c = CHR ''/'')"
  by (auto simp: hasMath_def list_ex_iff)

lemma includes_var_hasMath: "includesStr s ''var(--'' \<Longrightarrow> hasMath s"
proof -
  assume "includesStr s ''var(--''"
  then obtain ps ss where "s = ps @ ''var(--'' @ ss"
    by (auto simp: includesStr_sublist sublist_def)
  then have "CHR ''-'' \<in> set s" by simp
  then show ?thesis unfolding hasMath_set by blast
qed

lemma includesStr_Cons: "includesStr r p \<Longrightarrow> includesStr (c # r) p"
  by simp

lemma includesStr_append_left: "includesStr (p @ r) p"
  by (simp add: includesStr_sublist)

lemma replaceReferences_includes_var:
  "hasPlaceholder s \<Longrightarrow> includesStr (replaceReferences s) ''var(--''"
proof (induction s rule: replaceReferences.induct)
  case 1
  then show ?case by simp
next
  case (2 c cs)
  show ?case
  proof (cases "c = CHR ''{'' \<and> takeWhile (\<lambda>x. x \<noteq> CHR ''}'') cs \<noteq> []
         \<and> dropWhile (\<lambda>x. x \<noteq> CHR ''}'') cs \<noteq> []")
    case True
    then have "replaceReferences (c # cs) = ''var(--'' @
       (normalizeReferencePath (trim (takeWhile (\<lambda>x. x \<noteq> CHR ''}'') cs)) @ '')''
           @ replaceReferences (tl (dropWhile (\<lambda>x. x \<noteq> CHR ''}'') cs)))"
      by simp
    then show ?thesis by (simp only: includesStr_append_left)
  next
    case False
    with "2.prems" have "hasPlaceholder cs" by auto
    with False "2.IH"(2) have "includesStr (replaceReferences cs) ''var(--''" by blast
    moreover have "replaceReferences (c # cs) = c # replaceReferences cs" using False by auto
    ultimately show ?thesis by (simp only: includesStr_Cons)
  qed
qed

lemma replaceReferences_startsWith:
  "CHR ''v'' \<notin> set p \<Longrightarrow> startsWith (replaceReferences s) p \<Longrightarrow> startsWith s p"
proof (induction s arbitrary: p)
  case Nil
  then show ?case by simp
next
  case (Cons c cs)
  show ?case
  proof (cases p)
    case Nil
    then show ?thesis by simp
  next
    case p: (Cons q qs)
    show ?thesis
    proof (cases "c = CHR ''{'' \<and> takeWhile (\<lambda>x. x \<noteq> CHR ''}'') cs \<noteq> []
         \<and> dropWhile (\<lambda>x. x \<noteq> CHR ''}'') cs \<noteq> []")
      case True
      then have "hd (replaceReferences (c # cs)) = CHR ''v''" "replaceReferences (c # cs) \<noteq> []" by simp_all
      with Cons.prems p show ?thesis by (cases "replaceReferences (c # cs)") auto
    next
      case False
      then have "replaceReferences (c # cs) = c # replaceReferences cs" by auto
      with Cons.prems p have "q = c" "startsWith (replaceReferences cs) qs" by auto
      moreover have "CHR ''v'' \<notin> set qs" using Cons.prems p by simp
      ultimately show ?thesis using Cons.IH p by simp
    qed
  qed
qed

lemma hasPlaceholder_iff:
  "hasPlaceholder s \<longleftrightarrow>
   (\<exists>pre body post. s = pre @ ''{'' @ body @ ''}'' @ post \<and> body \<noteq> [] \<and> CHR ''}'' \<notin> set body)"
  (is "_ \<longleftrightarrow> ?R s")
proof
  show "hasPlaceholder s \<Longrightarrow> ?R s"
  proof (induction s)
    case Nil
    then show ?case by simp
  next
    case (Cons c cs)
    let ?P = "\<lambda>x. x \<noteq> CHR ''}''"
    show ?case
    proof (cases "c = CHR ''{'' \<and> takeWhile ?P cs \<noteq> [] \<and> dropWhile ?P cs \<noteq> []")
      case True
      then have "\<not> ?P (hd (dropWhile ?P cs))" using hd_dropWhile [of ?P cs] by blast
      then have "dropWhile ?P cs = CHR ''}'' # tl (dropWhile ?P cs)"
        using True by (cases "dropWhile ?P cs") auto
      then have "cs = takeWhile ?P cs @ ''}'' @ tl (dropWhile ?P cs)"
        using takeWhile_dropWhile_id [of ?P cs] by simp
      then have "c # cs = [] @ ''{'' @ takeWhile ?P cs @ ''}'' @ tl (dropWhile ?P cs)"
        using True by simp
      moreover have "CHR ''}'' \<notin> set (takeWhile ?P cs)"
        using set_takeWhileD [of "CHR ''}''" ?P cs] by blast
      ultimately show ?thesis using True by blast
    next
      case False
      with Cons.prems have "hasPlaceholder cs" by auto
      then obtain pre body post
        where "cs = pre @ ''{'' @ body @ ''}'' @ post" "body \<noteq> []" "CHR ''}'' \<notin> set body"
        using Cons.IH by blast
      then have "c # cs = (c # pre) @ ''{'' @ body @ ''}'' @ post" by simp
      then show ?thesis using \<open>body \<noteq> []\<close> \<open>CHR ''}'' \<notin> set body\<close> by blast
    qed
  qed
next
  assume "?R s"
  then obtain pre body post
    where s: "s = pre @ ''{'' @ body @ ''}'' @ post" and b: "body \<noteq> []" "CHR ''}'' \<notin> set body"
    by blast
  let ?P = "\<lambda>x. x \<noteq> CHR ''}''"
  have all: "\<forall>x\<in>set body. ?P x" using b by auto
  have t: "takeWhile ?P (body @ ''}'' @ post) = body"
    using all by (simp add: takeWhile_append2)
  have d: "dropWhile ?P (body @ ''}'' @ post) = ''}'' @ post"
    using all by (simp add: dropWhile_append2)
  have "hasPlaceholder (''{'' @ body @ ''}'' @ post)"
    using t d b by simp
  moreover have "hasPlaceholder r \<Longrightarrow> hasPlaceholder (pre @ r)" for r
    by (induction pre) simp_all
  ultimately show "hasPlaceholder s" unfolding s by blast
qed

text \<open>
  Claim C9. A string that holds at least one placeholder and does not start with
  \<^verbatim>\<open>calc(\<close> is returned by the reference resolver wrapped in \<^verbatim>\<open>calc(...)\<close>, whatever else
  it holds: the substituted \<^verbatim>\<open>var(--name)\<close> itself has the hyphen that the test for an
  arithmetic operator looks for.
\<close>

theorem placeholder_always_wrapped:
  assumes "\<exists>pre body post. str = pre @ ''{'' @ body @ ''}'' @ post \<and> body \<noteq> [] \<and> CHR ''}'' \<notin> set body"
    and "\<not> prefix ''calc('' str"
  shows "processStringReferences str type = ''calc('' @ replaceReferences str @ '')''"
proof -
  have hp: "hasPlaceholder str" using assms(1) by (simp only: hasPlaceholder_iff)
  then have v: "includesStr (replaceReferences str) ''var(--''"
    by (rule replaceReferences_includes_var)
  then have m: "hasMath (replaceReferences str)" by (rule includes_var_hasMath)
  have "\<not> startsWith (replaceReferences str) ''calc(''"
  proof
    assume "startsWith (replaceReferences str) ''calc(''"
    then have "startsWith str ''calc(''" by (rule replaceReferences_startsWith [rotated]) simp
    with assms(2) show False by (simp add: startsWith_prefix)
  qed
  with v m show ?thesis by (simp add: processStringReferences_def needsCalc_def)
qed

theorem placeholder_always_wrapped_witness:
  "(\<exists>pre body post. ''{spacing.sm}'' = pre @ ''{'' @ body @ ''}'' @ post \<and> body \<noteq> []
      \<and> CHR ''}'' \<notin> set body)
   \<and> \<not> prefix ''calc('' ''{spacing.sm}''
   \<and> processStringReferences ''{spacing.sm}'' (None :: json option) = ''calc(var(--spacing-sm))''"
proof -
  have "''{spacing.sm}'' = [] @ ''{'' @ ''spacing.sm'' @ ''}'' @ [] \<and> ''spacing.sm'' \<noteq> []
      \<and> CHR ''}'' \<notin> set ''spacing.sm''"
    by simp
  then have h1: "\<exists>pre body post. ''{spacing.sm}'' = pre @ ''{'' @ body @ ''}'' @ post \<and> body \<noteq> []
      \<and> CHR ''}'' \<notin> set body"
    by blast
  have h2: "\<not> prefix ''calc('' ''{spacing.sm}''" by simp
  have r: "replaceReferences ''{spacing.sm}'' = ''var(--spacing-sm)''" by code_simp
  have "processStringReferences ''{spacing.sm}'' (None :: json option)
        = ''calc('' @ replaceReferences ''{spacing.sm}'' @ '')''"
    by (rule placeholder_always_wrapped [OF h1 h2])
  then have "processStringReferences ''{spacing.sm}'' (None :: json option) = ''calc(var(--spacing-sm))''"
    by (simp only: r append.simps)
  with h1 h2 show ?thesis by blast
qed

text \<open>
  Claim C5. The string value \<^verbatim>\<open>{spacing.sm} + 4\<close> converts to
  \<^verbatim>\<open>calc(var(--spacing-sm) + 4)\<close> under every type, and in general the string left by the
  substitution of the placeholders is wrapped in \<^verbatim>\<open>calc(...)\<close> exactly when it holds one of
  \<^verbatim>\<open>+ - * /\<close> and a \<^verbatim>\<open>var(--\<close> and does not begin with \<^verbatim>\<open>calc(\<close>.
\<close>

theorem convertValue_calc:
  "convertValue (JStr ''{spacing.sm} + 4'') type = Inr (JStr ''calc(var(--spacing-sm) + 4)'')
   \<and> processStringReferences str type =
       (if (\<exists>c\<in>set (replaceReferences str). c = CHR ''+'' \<or> c = CHR ''-'' \<or> c = CHR ''*'' \<or> c = CHR ''/'')
           \<and> sublist ''var(--'' (replaceReferences str)
           \<and> \<not> prefix ''calc('' (replaceReferences str)
        then ''calc('' @ replaceReferences str @ '')''
        else replaceReferences str)"
proof
  have "includesStr ''{spacing.sm} + 4'' ''var(--'' = False" by code_simp
  moreover have "processStringReferences ''{spacing.sm} + 4'' type = ''calc(var(--spacing-sm) + 4)''"
    by code_simp
  ultimately show "convertValue (JStr ''{spacing.sm} + 4'') type = Inr (JStr ''calc(var(--spacing-sm) + 4)'')"
    by simp
next
  show "processStringReferences str type =
       (if (\<exists>c\<in>set (replaceReferences str). c = CHR ''+'' \<or> c = CHR ''-'' \<or> c = CHR ''*'' \<or> c = CHR ''/'')
           \<and> sublist ''var(--'' (replaceReferences str)
           \<and> \<not> prefix ''calc('' (replaceReferences str)
        then ''calc('' @ replaceReferences str @ '')''
        else replaceReferences str)"
    unfolding processStringReferences_def needsCalc_def Let_def
      hasMath_set includesStr_sublist startsWith_prefix
    by simp
qed

theorem convertValue_calc_witness:
  "convertValue (JStr ''{spacing.sm} + 4'') (Some (JStr ''spacing'')) = Inr (JStr ''calc(var(--spacing-sm) + 4)'')
   \<and> processStringReferences ''{a} * 2'' (Some (JStr ''spacing'')) = ''calc(var(--a) * 2)''
   \<and> processStringReferences ''calc({a} * 2)'' (Some (JStr ''spacing'')) = ''calc(var(--a) * 2)''"
proof -
  note t = convertValue_calc [of "Some (JStr ''spacing'')"]
  have r1: "replaceReferences ''{a} * 2'' = ''var(--a) * 2''" by code_simp
  have r2: "replaceReferences ''calc({a} * 2)'' = ''calc(var(--a) * 2)''" by code_simp
  have s1: "sublist ''var(--'' ''var(--a) * 2''" 
    unfolding includesStr_sublist [symmetric] by code_simp
  have a: "processStringReferences ''{a} * 2'' (Some (JStr ''spacing'')) = ''calc(var(--a) * 2)''"
    using t [of "''{a} * 2''", THEN conjunct2] s1 unfolding r1 by simp
  have b: "processStringReferences ''calc({a} * 2)'' (Some (JStr ''spacing'')) = ''calc(var(--a) * 2)''"
    using t [of "''calc({a} * 2)''", THEN conjunct2] unfolding r2 by simp
  from t [of "''x''", THEN conjunct1] a b show ?thesis by blast
qed

section \<open>The theme partitioner\<close>

lemma partitionThemes_light:
  "light (partitionThemes cats b) =
     light b @ map (\<lambda>(n, c). (n, variables c))
                 (filter (\<lambda>(n, c). includesStr (toLowerCase n) ''light'') cats)"
  by (induction cats b rule: partitionThemes.induct) (simp_all add: Let_def)

lemma partitionThemes_dark:
  "dark (partitionThemes cats b) =
     dark b @ map (\<lambda>(n, c). (n, variables c))
                (filter (\<lambda>(n, c). \<not> includesStr (toLowerCase n) ''light''
                                   \<and> includesStr (toLowerCase n) ''dark'') cats)"
  by (induction cats b rule: partitionThemes.induct) (simp_all add: Let_def)

lemma partitionThemes_base:
  "base (partitionThemes cats b) =
     base b @ map (\<lambda>(n, c). (n, variables c))
                (filter (\<lambda>(n, c). \<not> includesStr (toLowerCase n) ''light''
                                   \<and> \<not> includesStr (toLowerCase n) ''dark'') cats)"
  by (induction cats b rule: partitionThemes.induct) (simp_all add: Let_def)

text \<open>
  Claim C8. The theme partitioner looks for \<^verbatim>\<open>light\<close> in the lower-cased category name
  first and for \<^verbatim>\<open>dark\<close> only where \<^verbatim>\<open>light\<close> is absent: the light bucket holds every
  category whose name has \<^verbatim>\<open>light\<close> in it (also those that have \<^verbatim>\<open>dark\<close> too), the dark
  bucket those with \<^verbatim>\<open>dark\<close> and no \<^verbatim>\<open>light\<close>, and the base bucket the others.
\<close>

theorem partitionThemes_buckets:
  "light (partitionThemes cats \<lparr>light = [], dark = [], base = []\<rparr>) =
     map (\<lambda>(n, c). (n, variables c))
       (filter (\<lambda>(n, c). sublist ''light'' (toLowerCase n)) cats)
   \<and> dark (partitionThemes cats \<lparr>light = [], dark = [], base = []\<rparr>) =
     map (\<lambda>(n, c). (n, variables c))
       (filter (\<lambda>(n, c). \<not> sublist ''light'' (toLowerCase n) \<and> sublist ''dark'' (toLowerCase n)) cats)
   \<and> base (partitionThemes cats \<lparr>light = [], dark = [], base = []\<rparr>) =
     map (\<lambda>(n, c). (n, variables c))
       (filter (\<lambda>(n, c). \<not> sublist ''light'' (toLowerCase n) \<and> \<not> sublist ''dark'' (toLowerCase n)) cats)"
  by (simp add: partitionThemes_light partitionThemes_dark partitionThemes_base
      includesStr_sublist)

theorem partitionThemes_buckets_witness:
  "partitionThemes
     [(''Dark Highlight'', \<lparr>variables = [''--a: 1;''], mixins = []\<rparr>),
      (''darkness'', \<lparr>variables = [''--b: 2;''], mixins = []\<rparr>),
      (''spacing'', \<lparr>variables = [''--c: 3;''], mixins = []\<rparr>)]
     \<lparr>light = [], dark = [], base = []\<rparr>
   = \<lparr>light = [(''Dark Highlight'', [''--a: 1;''])],
      dark = [(''darkness'', [''--b: 2;''])],
      base = [(''spacing'', [''--c: 3;''])]\<rparr>"
proof -
  let ?cats = "[(''Dark Highlight'', \<lparr>variables = [''--a: 1;''], mixins = []\<rparr>),
      (''darkness'', \<lparr>variables = [''--b: 2;''], mixins = []\<rparr>),
      (''spacing'', \<lparr>variables = [''--c: 3;''], mixins = []\<rparr>)]"
  have l1: "sublist ''light'' (toLowerCase ''Dark Highlight'')"
    and l2: "\<not> sublist ''light'' (toLowerCase ''darkness'')"
    and l3: "\<not> sublist ''light'' (toLowerCase ''spacing'')"
    and d2: "sublist ''dark'' (toLowerCase ''darkness'')"
    and d3: "\<not> sublist ''dark'' (toLowerCase ''spacing'')"
    unfolding includesStr_sublist [symmetric] by code_simp+
  note t = partitionThemes_buckets [of ?cats]
  have "light (partitionThemes ?cats \<lparr>light = [], dark = [], base = []\<rparr>) = [(''Dark Highlight'', [''--a: 1;''])]"
    using t [THEN conjunct1] l1 l2 l3 by simp
  moreover have "dark (partitionThemes ?cats \<lparr>light = [], dark = [], base = []\<rparr>) = [(''darkness'', [''--b: 2;''])]"
    using t [THEN conjunct2, THEN conjunct1] l1 l2 l3 d2 d3 by simp
  moreover have "base (partitionThemes ?cats \<lparr>light = [], dark = [], base = []\<rparr>) = [(''spacing'', [''--c: 3;''])]"
    using t [THEN conjunct2, THEN conjunct2] l1 l2 l3 d2 d3 by simp
  ultimately show ?thesis
    by (cases "partitionThemes ?cats \<lparr>light = [], dark = [], base = []\<rparr>") simp
qed

section \<open>The token flattener\<close>

subsection \<open>The accumulator\<close>

lemma ensureCategory_idem:
  "ensureCategory k (ensureCategory k cats) = ensureCategory k cats"
  by (simp add: ensureCategory_def)

lemma ensureCategory_keys:
  "set (map fst (ensureCategory k cats)) \<subseteq> insert k (set (map fst cats))"
  by (auto simp: ensureCategory_def)

lemma ensureCategory_fixed:
  "map_of cats k \<noteq> None \<or> k \<in> set objectPrototypeKeys \<Longrightarrow> ensureCategory k cats = cats"
  by (auto simp: ensureCategory_def)

lemma map_of_ensureCategory:
  "map_of (ensureCategory k cats) k' =
     (if k' = k \<and> map_of cats k = None \<and> k \<notin> set objectPrototypeKeys
      then Some \<lparr>variables = [], mixins = []\<rparr> else map_of cats k')"
  by (auto simp: ensureCategory_def map_add_def split: option.splits)

lemma variablesOf_ensureCategory: "variablesOf (ensureCategory k cats) k' = variablesOf cats k'"
  by (simp add: variablesOf_def map_of_ensureCategory)

lemma mixinsOf_ensureCategory: "mixinsOf (ensureCategory k cats) k' = mixinsOf cats k'"
  by (simp add: mixinsOf_def map_of_ensureCategory)

lemma map_of_update_entry:
  "map_of (map (\<lambda>(k, c). if k = key then (k, f c) else (k, c)) cats) k' =
     (if k' = key then map_option f (map_of cats key) else map_of cats k')"
  by (induction cats) auto

lemma keys_update_entry:
  "map fst (map (\<lambda>(k, c). if k = key then (k, f c) else (k, c)) cats) = map fst cats"
  by (induction cats) auto

lemma pushVariable_Inr:
  "pushVariable key line cats = Inr cats' \<Longrightarrow>
     map fst cats' = map fst cats \<and> map_of cats key \<noteq> None
     \<and> (\<forall>k'. map_of cats' k' =
          (if k' = key then map_option (\<lambda>c. c\<lparr>variables := variables c @ [line]\<rparr>) (map_of cats key)
           else map_of cats k'))"
  unfolding pushVariable_def
  by (auto split: option.splits simp: keys_update_entry map_of_update_entry)

lemma pushMixin_Inr:
  "pushMixin key block cats = Inr cats' \<Longrightarrow>
     map fst cats' = map fst cats \<and> map_of cats key \<noteq> None
     \<and> (\<forall>k'. map_of cats' k' =
          (if k' = key then map_option (\<lambda>c. c\<lparr>mixins := mixins c @ [block]\<rparr>) (map_of cats key)
           else map_of cats k'))"
  unfolding pushMixin_def
  by (auto split: option.splits simp: keys_update_entry map_of_update_entry)

lemma pushVariables_Inr:
  "pushVariables key lines cats = Inr cats' \<Longrightarrow>
     map fst cats' = map fst cats \<and> (lines \<noteq> [] \<longrightarrow> map_of cats key \<noteq> None)"
proof (induction lines arbitrary: cats)
  case Nil
  then show ?case by simp
next
  case (Cons l ls)
  then obtain c1 where p: "pushVariable key l cats = Inr c1" and r: "pushVariables key ls c1 = Inr cats'"
    by (auto split: sum.splits)
  from pushVariable_Inr [OF p] Cons.IH [OF r] show ?case by simp
qed

lemma emitToken_keys:
  assumes "emitToken value baseName cats tokenName = Inr cats'"
  shows "map fst cats' = map fst (ensureCategory (categoryKeyOf baseName) cats)"
  using assms unfolding emitToken_def Let_def
  by (auto split: option.splits json.splits sum.splits if_splits
      dest!: pushVariable_Inr pushMixin_Inr pushVariables_Inr)

subsection \<open>The cases of the loop\<close>

lemma flattenTokens_skip:
  "key = [] \<or> startsWith key ''$'' \<Longrightarrow>
   flattenTokens ((key, value) # rest) baseName cats pathPrefix
     = flattenTokens rest baseName cats pathPrefix"
  by simp

lemma flattenTokens_leaf:
  "\<not> (key = [] \<or> startsWith key ''$'') \<Longrightarrow> isLeaf value \<Longrightarrow>
   flattenTokens ((key, value) # rest) baseName cats pathPrefix
     = (case emitToken value baseName cats (currentPathOf pathPrefix key) of
          Inl e \<Rightarrow> Inl e
        | Inr cats' \<Rightarrow> flattenTokens rest baseName cats' pathPrefix)"
  by (simp add: Let_def)

lemma flattenTokens_group:
  "\<not> (key = [] \<or> startsWith key ''$'') \<Longrightarrow> \<not> isLeaf (JObj es) \<Longrightarrow>
   flattenTokens ((key, JObj es) # rest) baseName cats pathPrefix
     = (case flattenTokens es baseName cats (currentPathOf pathPrefix key) of
          Inl e \<Rightarrow> Inl e
        | Inr cats' \<Rightarrow> flattenTokens rest baseName cats' pathPrefix)"
  by (simp add: Let_def)

lemma flattenTokens_other:
  "\<not> (key = [] \<or> startsWith key ''$'') \<Longrightarrow> \<not> isLeaf value \<Longrightarrow> \<forall>es. value \<noteq> JObj es \<Longrightarrow>
   flattenTokens ((key, value) # rest) baseName cats pathPrefix
     = flattenTokens rest baseName cats pathPrefix"
  by (cases "value") (simp_all add: Let_def)

lemma flattenTokens_loop_induct [case_names Nil Skip Leaf Group Other]:
  assumes "\<And>baseName cats pathPrefix. P [] baseName cats pathPrefix"
    and "\<And>key value rest baseName cats pathPrefix.
           key = [] \<or> startsWith key ''$'' \<Longrightarrow> P rest baseName cats pathPrefix \<Longrightarrow>
           P ((key, value) # rest) baseName cats pathPrefix"
    and "\<And>key value rest baseName cats pathPrefix.
           \<not> (key = [] \<or> startsWith key ''$'') \<Longrightarrow> isLeaf value \<Longrightarrow>
           (\<And>cats'. emitToken value baseName cats (currentPathOf pathPrefix key) = Inr cats' \<Longrightarrow>
                     P rest baseName cats' pathPrefix) \<Longrightarrow>
           P ((key, value) # rest) baseName cats pathPrefix"
    and "\<And>key es rest baseName cats pathPrefix.
           \<not> (key = [] \<or> startsWith key ''$'') \<Longrightarrow> \<not> isLeaf (JObj es) \<Longrightarrow>
           P es baseName cats (currentPathOf pathPrefix key) \<Longrightarrow>
           (\<And>cats'. flattenTokens es baseName cats (currentPathOf pathPrefix key) = Inr cats' \<Longrightarrow>
                     P rest baseName cats' pathPrefix) \<Longrightarrow>
           P ((key, JObj es) # rest) baseName cats pathPrefix"
    and "\<And>key value rest baseName cats pathPrefix.
           \<not> (key = [] \<or> startsWith key ''$'') \<Longrightarrow> \<not> isLeaf value \<Longrightarrow> \<forall>es. value \<noteq> JObj es \<Longrightarrow>
           P rest baseName cats pathPrefix \<Longrightarrow>
           P ((key, value) # rest) baseName cats pathPrefix"
  shows "P es baseName cats pathPrefix"
proof (induction es baseName cats pathPrefix rule: flattenTokens.induct)
  case (1 baseName cats pathPrefix)
  show ?case by (rule assms(1))
next
  case (2 key "value" rest baseName cats pathPrefix)
  show ?case
  proof (cases "key = [] \<or> startsWith key ''$''")
    case True
    then show ?thesis using "2.IH"(1) by (intro assms(2))
  next
    case skip: False
    show ?thesis
    proof (cases "isLeaf value")
      case True
      show ?thesis
        using skip True "2.IH"(2) [OF skip refl True] by (intro assms(3))
    next
      case leaf: False
      show ?thesis
      proof (cases "\<exists>es. value = JObj es")
        case True
        then obtain es where v: "value = JObj es" by blast
        show ?thesis unfolding v
          using skip leaf [unfolded v] "2.IH"(8) [OF skip refl leaf v] "2.IH"(9) [OF skip refl leaf v]
          by (intro assms(4))
      next
        case False
        have "P rest baseName cats pathPrefix"
          using False "2.IH"(3-7) [OF skip refl leaf] by (cases "value") auto
        with skip leaf False show ?thesis by (intro assms(5)) auto
      qed
    qed
  qed
qed

lemma flattenTokens_Nil: "flattenTokens [] baseName cats pathPrefix = Inr cats"
  by simp

declare flattenTokens.simps [simp del]

lemma emitToken_ensured:
  "emitToken value baseName (ensureCategory (categoryKeyOf baseName) cats) tokenName
     = emitToken value baseName cats tokenName"
  by (simp add: emitToken_def ensureCategory_idem)

lemma ensureCategory_member:
  assumes "k \<notin> set objectPrototypeKeys"
  shows "k \<in> set (map fst (ensureCategory k cats))"
proof (cases "map_of cats k")
  case None
  with assms show ?thesis by (simp add: ensureCategory_def)
next
  case (Some y)
  then have "(k, y) \<in> set cats" by (rule map_of_SomeD)
  then have "k \<in> fst ` set cats" by force
  with Some show ?thesis by (simp add: ensureCategory_def)
qed

lemma ensureCategory_fixed_keys:
  assumes "map fst r = map fst (ensureCategory k cats)"
  shows "ensureCategory k r = r"
proof (cases "k \<in> set objectPrototypeKeys")
  case True
  then show ?thesis by (simp add: ensureCategory_fixed)
next
  case False
  then have "k \<in> set (map fst r)" using assms ensureCategory_member by simp
  then have "map_of r k \<noteq> None" by (simp add: map_of_eq_None_iff)
  then show ?thesis by (simp add: ensureCategory_fixed)
qed

lemma emitToken_result_ensured:
  "emitToken value baseName cats tokenName = Inr r \<Longrightarrow> ensureCategory (categoryKeyOf baseName) r = r"
  by (rule ensureCategory_fixed_keys [OF emitToken_keys])

lemma flattenTokens_keys:
  "flattenTokens es baseName cats pathPrefix = Inr r \<Longrightarrow>
   set (map fst r) \<subseteq> insert (categoryKeyOf baseName) (set (map fst cats))"
proof (induction es baseName cats pathPrefix arbitrary: r rule: flattenTokens_loop_induct)
  case (Nil baseName cats pathPrefix)
  then show ?case by (auto simp: flattenTokens_Nil)
next
  case (Skip key "value" rest baseName cats pathPrefix)
  then show ?case by (simp add: flattenTokens_skip)
next
  case (Leaf key "value" rest baseName cats pathPrefix)
  from Leaf.prems Leaf.hyps obtain c where e: "emitToken value baseName cats (currentPathOf pathPrefix key) = Inr c"
    and f: "flattenTokens rest baseName c pathPrefix = Inr r"
    by (auto simp: flattenTokens_leaf split: sum.splits)
  have "set (map fst c) \<subseteq> insert (categoryKeyOf baseName) (set (map fst cats))"
    using emitToken_keys [OF e] ensureCategory_keys [of "categoryKeyOf baseName" cats] by simp
  with Leaf.IH [OF e f] show ?case by blast
next
  case (Group key es rest baseName cats pathPrefix)
  from Group.prems Group.hyps obtain c where e: "flattenTokens es baseName cats (currentPathOf pathPrefix key) = Inr c"
    and f: "flattenTokens rest baseName c pathPrefix = Inr r"
    by (auto simp: flattenTokens_group split: sum.splits)
  from Group.IH(1) [OF e] Group.IH(2) [OF e f] show ?case by blast
next
  case (Other key "value" rest baseName cats pathPrefix)
  then show ?case by (simp add: flattenTokens_other)
qed

lemma flattenTokens_ensured:
  "flattenTokens es baseName (ensureCategory (categoryKeyOf baseName) cats) pathPrefix
     = map_sum id (ensureCategory (categoryKeyOf baseName)) (flattenTokens es baseName cats pathPrefix)"
proof (induction es baseName cats pathPrefix rule: flattenTokens_loop_induct)
  case (Nil baseName cats pathPrefix)
  then show ?case by (simp add: flattenTokens_Nil)
next
  case (Skip key "value" rest baseName cats pathPrefix)
  then show ?case by (simp add: flattenTokens_skip)
next
  case (Leaf key "value" rest baseName cats pathPrefix)
  show ?case
  proof (cases "emitToken value baseName cats (currentPathOf pathPrefix key)")
    case (Inl e)
    with Leaf.hyps show ?thesis by (simp add: flattenTokens_leaf emitToken_ensured)
  next
    case (Inr c)
    have "ensureCategory (categoryKeyOf baseName) c = c" using Inr by (rule emitToken_result_ensured)
    with Leaf.IH [OF Inr] Inr Leaf.hyps show ?thesis
      by (simp add: flattenTokens_leaf emitToken_ensured)
  qed
next
  case (Group key es rest baseName cats pathPrefix)
  show ?case
  proof (cases "flattenTokens es baseName cats (currentPathOf pathPrefix key)")
    case (Inl e)
    with Group.hyps Group.IH(1) show ?thesis by (simp add: flattenTokens_group)
  next
    case (Inr c)
    with Group.hyps Group.IH(1) Group.IH(2) [OF Inr] show ?thesis
      by (simp add: flattenTokens_group)
  qed
next
  case (Other key "value" rest baseName cats pathPrefix)
  then show ?case by (simp add: flattenTokens_other)
qed

text \<open>
  Claim C7. A leaf token whose resolved value (\<^verbatim>\<open>$value\<close>, or else \<^verbatim>\<open>value\<close>) is
  \<^verbatim>\<open>undefined\<close> or \<^verbatim>\<open>null\<close> is passed over without an error: the flattening of a node
  that has such a token in front gives what the flattening of the remaining entries gives,
  with the same variables and the same mixins under every category key. All that the token
  leaves behind is that its category exists in the accumulator.
\<close>

theorem null_leaf_skipped:
  assumes "key \<noteq> []" and "\<not> startsWith key ''$''" and "isLeaf value"
    and "tokenValueOf value = None \<or> tokenValueOf value = Some JNull"
  shows "flattenTokens ((key, value) # rest) baseName cats pathPrefix
           = map_sum id (ensureCategory (categoryKeyOf baseName))
               (flattenTokens rest baseName cats pathPrefix)
         \<and> variablesOf (ensureCategory (categoryKeyOf baseName) cats') k = variablesOf cats' k
         \<and> mixinsOf (ensureCategory (categoryKeyOf baseName) cats') k = mixinsOf cats' k"
proof -
  have "emitToken value baseName cats (currentPathOf pathPrefix key)
          = Inr (ensureCategory (categoryKeyOf baseName) cats)"
    using assms(4) by (auto simp: emitToken_def)
  then have "flattenTokens ((key, value) # rest) baseName cats pathPrefix
          = flattenTokens rest baseName (ensureCategory (categoryKeyOf baseName) cats) pathPrefix"
    using assms(1-3) by (simp add: flattenTokens_leaf)
  then show ?thesis
    by (simp only: flattenTokens_ensured variablesOf_ensureCategory mixinsOf_ensureCategory)
qed

theorem null_leaf_skipped_witness:
  "''nul'' \<noteq> [] \<and> \<not> startsWith ''nul'' ''$'' \<and> isLeaf (JObj [(''type'', JStr ''color''), (''value'', JNull)])
   \<and> tokenValueOf (JObj [(''type'', JStr ''color''), (''value'', JNull)]) = Some JNull
   \<and> flattenTokens
        [(''nul'', JObj [(''type'', JStr ''color''), (''value'', JNull)]),
         (''primary'', JObj [(''type'', JStr ''color''), (''value'', JStr ''#fff'')])]
        ''Color'' [] []
       = Inr [(''color'', \<lparr>variables = [''--primary: #fff;''], mixins = []\<rparr>)]"
proof -
  let ?v = "JObj [(''type'', JStr ''color''), (''value'', JNull)]"
  let ?rest = "[(''primary'', JObj [(''type'', JStr ''color''), (''value'', JStr ''#fff'')])]"
  have h1: "''nul'' \<noteq> []" by simp
  have h2: "\<not> startsWith ''nul'' ''$''" by simp
  have h3: "isLeaf ?v" by code_simp
  have h4': "tokenValueOf ?v = Some JNull" by code_simp
  then have h4: "tokenValueOf ?v = None \<or> tokenValueOf ?v = Some JNull" by simp
  have r: "map_sum id (ensureCategory (categoryKeyOf ''Color'')) (flattenTokens ?rest ''Color'' [] [])
             = Inr [(''color'', \<lparr>variables = [''--primary: #fff;''], mixins = []\<rparr>)]"
    by code_simp
  have "flattenTokens ((''nul'', ?v) # ?rest) ''Color'' [] []
          = Inr [(''color'', \<lparr>variables = [''--primary: #fff;''], mixins = []\<rparr>)]"
    using null_leaf_skipped [OF h1 h2 h3 h4, of ?rest "''Color''" "[]" "[]", THEN conjunct1]
    by (simp only: r)
  with h1 h2 h3 h4' show ?thesis by blast
qed


lemma toLowerChar_not_marker:
  assumes "c \<noteq> CHR ''$''" and "c \<noteq> CHR ''_''"
  shows "toLowerChar c \<noteq> CHR ''$'' \<and> toLowerChar c \<noteq> CHR ''_''"
proof (cases "isUpper c")
  case False
  with assms show ?thesis by (simp add: toLowerChar_def)
next
  case True
  let ?n = "(of_char c :: nat) + 32"
  have r: "97 \<le> ?n" "?n \<le> 122" using True by (simp_all add: isUpper_def)
  have "of_char (char_of ?n :: char) = ?n mod 256" by (rule of_char_of)
  with r have v: "(of_char (char_of ?n :: char) :: nat) = ?n" by simp
  have "char_of ?n \<noteq> CHR ''$''"
  proof
    assume "char_of ?n = CHR ''$''"
    then have "(of_char (char_of ?n :: char) :: nat) = of_char CHR ''$''" by simp
    with v r show False by simp
  qed
  moreover have "char_of ?n \<noteq> CHR ''_''"
  proof
    assume "char_of ?n = CHR ''_''"
    then have "(of_char (char_of ?n :: char) :: nat) = of_char CHR ''_''" by simp
    with v r show False by simp
  qed
  ultimately show ?thesis using True by (simp add: toLowerChar_def)
qed

lemma categoryKeyOf_not_marker:
  assumes "\<not> startsWith n ''$''" and "\<not> startsWith n ''_''"
  shows "\<not> startsWith (categoryKeyOf n) ''$'' \<and> \<not> startsWith (categoryKeyOf n) ''_''"
proof (cases n)
  case Nil
  then show ?thesis by (simp add: categoryKeyOf_def toLowerCase_def replaceSlashes_def)
next
  case (Cons c cs)
  with assms have c: "c \<noteq> CHR ''$''" "c \<noteq> CHR ''_''" by auto
  let ?d = "if c = CHR 0x5C \<or> c = CHR ''/'' then CHR ''-'' else c"
  have "?d \<noteq> CHR ''$''" "?d \<noteq> CHR ''_''" using c by auto
  then have "toLowerChar ?d \<noteq> CHR ''$'' \<and> toLowerChar ?d \<noteq> CHR ''_''"
    by (rule toLowerChar_not_marker)
  then show ?thesis using Cons
    by (simp add: categoryKeyOf_def toLowerCase_def replaceSlashes_def)
qed

lemma flattenDocument_keys:
  "flattenDocument es cats = Inr r \<Longrightarrow> \<forall>k\<in>set (map fst cats). unmarked k \<Longrightarrow>
   \<forall>k\<in>set (map fst r). unmarked k"
proof (induction es cats arbitrary: r rule: flattenDocument.induct)
  case (1 cats)
  then show ?case by simp
next
  case (2 categoryName categoryTokens rest cats)
  show ?case
  proof (cases "startsWith categoryName ''$'' \<or> startsWith categoryName ''_''")
    case True
    with 2 show ?thesis by simp
  next
    case False
    with "2.prems"(1) obtain ts c where o: "objectEntries categoryTokens = Inr ts"
      and f: "flattenTokens ts categoryName cats [] = Inr c"
      and d: "flattenDocument rest c = Inr r"
      by (auto split: sum.splits)
    have "unmarked (categoryKeyOf categoryName)"
      using False categoryKeyOf_not_marker [of categoryName] by (simp add: unmarked_def)
    have "\<forall>k\<in>set (map fst c). unmarked k"
    proof
      fix k assume "k \<in> set (map fst c)"
      with flattenTokens_keys [OF f]
      have "k = categoryKeyOf categoryName \<or> k \<in> set (map fst cats)" by blast
      with \<open>unmarked (categoryKeyOf categoryName)\<close> "2.prems"(2) show "unmarked k" by blast
    qed
    with "2.IH"(2) [OF False o f d] show ?thesis by blast
  qed
qed

lemma flattenDocument_filter:
  "flattenDocument (filter (\<lambda>(n, t). \<not> startsWith n ''$'' \<and> \<not> startsWith n ''_'') es) cats
     = flattenDocument es cats"
  by (induction es cats rule: flattenDocument.induct) (auto split: sum.splits)

text \<open>
  Claim C10. A top-level category whose name begins with \<^verbatim>\<open>$\<close> or with \<^verbatim>\<open>_\<close> is skipped
  by the generation: the files written for a document are those written for the document
  without these categories, and no key of the accumulator, from which the component files
  and the imports of the index are made, begins with either character.
\<close>

theorem marked_categories_skipped:
  "generateSCSS (JObj es)
     = generateSCSS (JObj (filter (\<lambda>(n, t). \<not> startsWith n ''$'' \<and> \<not> startsWith n ''_'') es))
   \<and> flattenDocument es cats
     = flattenDocument (filter (\<lambda>(n, t). \<not> startsWith n ''$'' \<and> \<not> startsWith n ''_'') es) cats
   \<and> (flattenDocument es [] = Inr r \<longrightarrow>
        (\<forall>k\<in>set (map fst r). \<not> startsWith k ''$'' \<and> \<not> startsWith k ''_''))"
proof -
  have "\<forall>k\<in>set (map fst r). unmarked k" if "flattenDocument es [] = Inr r"
  proof -
    have "\<forall>k\<in>set (map fst ([] :: categories)). unmarked k" by simp
    with that show ?thesis by (rule flattenDocument_keys)
  qed
  then show ?thesis
    by (simp add: generateSCSS_def flattenDocument_filter unmarked_def)
qed

theorem marked_categories_skipped_witness:
  "flattenDocument
     [(''$themes'', JNull),
      (''_internal'', JObj [(''a'', JObj [(''type'', JStr ''color''), (''value'', JStr ''#000'')])]),
      (''color'', JObj [(''primary'', JObj [(''type'', JStr ''color''), (''value'', JStr ''#fff'')])])]
     []
     = Inr [(''color'', \<lparr>variables = [''--primary: #fff;''], mixins = []\<rparr>)]
   \<and> \<not> startsWith ''color'' ''$'' \<and> \<not> startsWith ''color'' ''_''"
proof -
  let ?es = "[(''$themes'', JNull),
      (''_internal'', JObj [(''a'', JObj [(''type'', JStr ''color''), (''value'', JStr ''#000'')])]),
      (''color'', JObj [(''primary'', JObj [(''type'', JStr ''color''), (''value'', JStr ''#fff'')])])]"
  let ?r = "[(''color'', \<lparr>variables = [''--primary: #fff;''], mixins = []\<rparr>)]"
  note t = marked_categories_skipped [of ?es "[]" ?r]
  have f: "filter (\<lambda>(n, t). \<not> startsWith n ''$'' \<and> \<not> startsWith n ''_'') ?es
             = [(''color'', JObj [(''primary'', JObj [(''type'', JStr ''color''), (''value'', JStr ''#fff'')])])]"
    by simp
  have e: "flattenDocument
             [(''color'', JObj [(''primary'', JObj [(''type'', JStr ''color''), (''value'', JStr ''#fff'')])])] []
             = Inr ?r"
    by code_simp
  have a: "flattenDocument ?es [] = Inr ?r"
    using t [THEN conjunct2, THEN conjunct1] by (simp only: f e)
  from t [THEN conjunct2, THEN conjunct2] a
  have "\<forall>k\<in>set (map fst ?r). \<not> startsWith k ''$'' \<and> \<not> startsWith k ''_''" by (rule mp)
  then have "\<not> startsWith ''color'' ''$'' \<and> \<not> startsWith ''color'' ''_''" by simp
  with a show ?thesis by blast
qed


section \<open>Component utilities\<close>

lemma generateComponentUtilities_no_rules:
  "generateComponentUtilities categoryName categoryData =
     ''// '' @ categoryName @ '' component utilities\<newline>''
     @ ''.'' @ categoryName @ '' {\<newline>''
     @ ''  // Base styles using tokens\<newline>''
     @ ''}\<newline>\<newline>''"
  by (simp add: generateComponentUtilities_def readNamed_def baseRuleLines_def stateRule_def states_def)

text \<open>
  Claim C3. For a category that has component-state variables the utilities hold the
  component base rule, and they are claimed to hold one rule for each pseudo-state with a
  matching variable. The generator is handed the array of the category's variables where
  it reads \<^verbatim>\<open>categoryData.base\<close> and \<^verbatim>\<open>categoryData[state]\<close>, finds nothing under these
  names, and emits an empty base rule and no state rule: for the category \<^verbatim>\<open>button\<close> with
  the variables \<^verbatim>\<open>--background\<close> and \<^verbatim>\<open>--background-hover\<close> there is no
  \<^verbatim>\<open>.button:hover\<close> rule and no \<^verbatim>\<open>background\<close> line in the base rule.
\<close>

theorem component_state_rules_missing:
  "isComponentTokens [''--background: #fff;'', ''--background-hover: #000;'']
   \<and> generateBasicUtilities ''button'' [''--background: #fff;'', ''--background-hover: #000;''] []
     = ''.text-background { color: var(--background); }\<newline>''
       @ ''.bg-background { background-color: var(--background); }\<newline>''
       @ ''.border-background { border-color: var(--background); }\<newline>''
       @ ''.text-background-hover { color: var(--background-hover); }\<newline>''
       @ ''.bg-background-hover { background-color: var(--background-hover); }\<newline>''
       @ ''.border-background-hover { border-color: var(--background-hover); }\<newline>''
       @ ''// button component utilities\<newline>''
       @ ''.button {\<newline>''
       @ ''  // Base styles using tokens\<newline>''
       @ ''}\<newline>\<newline>''"
  by code_simp

section \<open>The global fix-up\<close>

subsection \<open>Lines\<close>






subsection \<open>The replacement of placeholders\<close>













section \<open>Declarations and the documents that hold them\<close>

subsection \<open>Declaration lines in a document\<close>












subsection \<open>Every declaration line starts with two hyphens\<close>














section \<open>One declaration for each leaf token\<close>

subsection \<open>Path names\<close>






subsection \<open>One token\<close>







lemma declarations_Cons:
  "declarations ((p, v) # ls) =
     (if hasValue v then [''--'' @ pathName p @ '': '' @ the (singleDeclaration v) @ '';''] else [])
     @ declarations ls"
  by (simp add: declarations_def)







end
